theory Spec2Isabelle
  imports Complex_Main "HOL-Library.AList" "HOL-Library.Sublist" "HOL-Library.Multiset"
begin

section \<open>The session-scoped conversation relay of \<^verbatim>\<open>backend/app/main.py\<close>\<close>

text \<open>
  The module keeps every conversation in the process-wide dict \<^verbatim>\<open>chat_sessions\<close>
  and relays chat turns to an Ollama server. The embedding below follows the module
  function by function. What the module takes from outside is made explicit:
  \<^item> \<^verbatim>\<open>datetime.now()\<close> and \<^verbatim>\<open>uuid.uuid4()\<close> are oracles of the environment, read
    through a counter kept in the state, so successive calls may give any values;
  \<^item> \<^verbatim>\<open>json.loads\<close> is a parameter of the environment (\<open>None\<close> is
    \<^verbatim>\<open>JSONDecodeError\<close>);
  \<^item> the Ollama server is a parameter of each call: a function from the payload it is
    sent to what the \<^verbatim>\<open>httpx\<close> client then does (raise or return).
  Every endpoint returns the state it leaves behind together with either the exception
  that leaves the endpoint or its result. An endpoint runs from start to end without
  another request in between.
\<close>

subsection \<open>Decoded JSON and the Python operations used on it\<close>

text \<open>
  What \<^verbatim>\<open>json.loads\<close> returns: \<^verbatim>\<open>None\<close>, a bool, a number (a rational here; the
  special floats are left out), a string, a list, or a dict, as the list of its items.
\<close>

datatype json =
    JNull
  | JBool bool
  | JNum rat
  | JStr string
  | JArr "json list"
  | JObj "(string \<times> json) list"

text \<open>Python's truth value of a decoded JSON value (\<^verbatim>\<open>if x:\<close>).\<close>

fun truthy :: "json \<Rightarrow> bool" where
  "truthy JNull = False"
| "truthy (JBool b) = b"
| "truthy (JNum n) = (n \<noteq> 0)"
| "truthy (JStr s) = (s \<noteq> [])"
| "truthy (JArr xs) = (xs \<noteq> [])"
| "truthy (JObj kvs) = (kvs \<noteq> [])"

text \<open>
  The exceptions the module raises or lets through. \<open>HTTPException\<close> is FastAPI's
  (a subclass of \<^verbatim>\<open>Exception\<close>); \<open>RequestError\<close> and \<open>HTTPStatusError\<close> are
  \<^verbatim>\<open>httpx\<close>'s, the latter with the status code and the text of the response. The
  detail of an \<open>HTTPException\<close> keeps the structure of the f-string that builds it.
\<close>

datatype py_exception =
    HTTPException nat detail
  | RequestError
  | HTTPStatusError nat string
  | JSONDecodeError
  | KeyError
  | TypeError
  | AttributeError
  | ValidationError
and detail =
    Detail string
  | OllamaError string
  | ChatError py_exception
  | StreamingError py_exception
  | ModelNotAvailable string

text \<open>\<^verbatim>\<open>k in x\<close>: key of a dict, element of a list, substring of a string.\<close>

fun py_contains :: "string \<Rightarrow> json \<Rightarrow> py_exception + bool" where
  "py_contains k (JObj kvs) = Inr (k \<in> fst ` set kvs)"
| "py_contains k (JArr xs) = Inr (JStr k \<in> set xs)"
| "py_contains k (JStr s) = Inr (sublist k s)"
| "py_contains k JNull = Inl TypeError"
| "py_contains k (JBool b) = Inl TypeError"
| "py_contains k (JNum n) = Inl TypeError"

text \<open>\<^verbatim>\<open>x[k]\<close> with a string key.\<close>

fun py_getitem :: "json \<Rightarrow> string \<Rightarrow> py_exception + json" where
  "py_getitem (JObj kvs) k = (case map_of kvs k of None \<Rightarrow> Inl KeyError | Some v \<Rightarrow> Inr v)"
| "py_getitem (JArr xs) k = Inl TypeError"
| "py_getitem (JStr s) k = Inl TypeError"
| "py_getitem JNull k = Inl TypeError"
| "py_getitem (JBool b) k = Inl TypeError"
| "py_getitem (JNum n) k = Inl TypeError"

text \<open>\<^verbatim>\<open>x.get(k, d)\<close>: only a dict has the method.\<close>

fun py_get :: "json \<Rightarrow> string \<Rightarrow> json \<Rightarrow> py_exception + json" where
  "py_get (JObj kvs) k d = Inr (case map_of kvs k of None \<Rightarrow> d | Some v \<Rightarrow> v)"
| "py_get (JArr xs) k d = Inl AttributeError"
| "py_get (JStr s) k d = Inl AttributeError"
| "py_get JNull k d = Inl AttributeError"
| "py_get (JBool b) k d = Inl AttributeError"
| "py_get (JNum n) k d = Inl AttributeError"

text \<open>\<^verbatim>\<open>for m in x\<close>: the elements of a list, the characters of a string, the keys of a dict.\<close>

fun py_iter :: "json \<Rightarrow> py_exception + json list" where
  "py_iter (JArr xs) = Inr xs"
| "py_iter (JStr s) = Inr (map (\<lambda>c. JStr [c]) s)"
| "py_iter (JObj kvs) = Inr (map (\<lambda>kv. JStr (fst kv)) kvs)"
| "py_iter JNull = Inl TypeError"
| "py_iter (JBool b) = Inl TypeError"
| "py_iter (JNum n) = Inl TypeError"

subsection \<open>The data model\<close>

text \<open>
  A stored message and a session are the dicts the module builds; a timestamp is a
  point of a linear order, here a natural number. Two records cannot share a field
  name, so the fields of the request, the response and the summary carry a prefix where
  the session already has the name.
\<close>

record chat_message =
  role :: string
  content :: json
  timestamp :: nat

record session =
  model :: string
  messages :: "chat_message list"
  created_at :: nat
  last_updated :: nat

record chat_request =
  message :: string
  req_model :: string
  session_id :: "string option"
  system_prompt :: "string option"

record chat_response =
  response :: string
  resp_session_id :: string
  resp_model :: string
  resp_timestamp :: nat

record session_info =
  info_session_id :: string
  info_model :: string
  info_created_at :: nat
  info_last_updated :: nat
  message_count :: nat

text \<open>The JSON body posted to \<^verbatim>\<open>/api/chat\<close>.\<close>

record chat_payload =
  pl_model :: string
  pl_messages :: "(string \<times> json) list"
  pl_stream :: bool

record env =
  clock :: "nat \<Rightarrow> nat"
  uuid4 :: "nat \<Rightarrow> string"
  json_loads :: "string \<Rightarrow> json option"

text \<open>
  The state: \<^verbatim>\<open>chat_sessions\<close> as an association list in insertion order (a Python
  dict iterates in insertion order), and how often the clock and the generator of
  identifiers have been read.
\<close>

record world =
  chat_sessions :: "(string \<times> session) list"
  clock_reads :: nat
  uuid_draws :: nat

definition now :: "env \<Rightarrow> world \<Rightarrow> nat \<times> world" where
  "now E w = (clock E (clock_reads w), w\<lparr>clock_reads := Suc (clock_reads w)\<rparr>)"

text \<open>\<^verbatim>\<open>session["messages"].append(msg)\<close> on the session object stored under \<open>sid\<close>.\<close>

definition append_message :: "string \<Rightarrow> chat_message \<Rightarrow> world \<Rightarrow> world" where
  "append_message sid msg w =
     w\<lparr>chat_sessions :=
         AList.map_entry sid (\<lambda>s. s\<lparr>messages := messages s @ [msg]\<rparr>) (chat_sessions w)\<rparr>"

text \<open>\<^verbatim>\<open>session["last_updated"] = t\<close>.\<close>

definition set_last_updated :: "string \<Rightarrow> nat \<Rightarrow> world \<Rightarrow> world" where
  "set_last_updated sid t w =
     w\<lparr>chat_sessions := AList.map_entry sid (\<lambda>s. s\<lparr>last_updated := t\<rparr>) (chat_sessions w)\<rparr>"

subsection \<open>Helper functions of the module\<close>

text \<open>
  \<^verbatim>\<open>create_session\<close> (lines 71 to 80): the identifier is drawn, then the dict literal
  reads the clock twice, for \<^verbatim>\<open>created_at\<close> and for \<^verbatim>\<open>last_updated\<close>, and the entry
  is assigned. Assigning to a key the dict already has replaces the value in place;
  a new key goes to the end.
\<close>

definition create_session :: "env \<Rightarrow> string \<Rightarrow> world \<Rightarrow> string \<times> world" where
  "create_session E m w =
     (let sid = uuid4 E (uuid_draws w);
          w1 = w\<lparr>uuid_draws := Suc (uuid_draws w)\<rparr>;
          (t1, w2) = now E w1;
          (t2, w3) = now E w2
      in (sid,
          w3\<lparr>chat_sessions :=
               AList.update sid
                 \<lparr>model = m, messages = [], created_at = t1, last_updated = t2\<rparr>
                 (chat_sessions w3)\<rparr>))"

text \<open>\<^verbatim>\<open>get_session_messages\<close> (lines 82 to 93); the loop that appends is a \<open>map\<close>.\<close>

definition get_session_messages :: "string \<Rightarrow> world \<Rightarrow> (string \<times> json) list" where
  "get_session_messages sid w =
     (case map_of (chat_sessions w) sid of
        None \<Rightarrow> []
      | Some s \<Rightarrow> map (\<lambda>msg. (role msg, content msg)) (messages s))"

text \<open>
  \<^verbatim>\<open>request.session_id or create_session(request.model)\<close> (lines 131 and 206):
  \<^verbatim>\<open>None\<close> and the empty string are both false.
\<close>

definition resolve_session_id :: "env \<Rightarrow> chat_request \<Rightarrow> world \<Rightarrow> string \<times> world" where
  "resolve_session_id E req w =
     (case session_id req of
        None \<Rightarrow> create_session E (req_model req) w
      | Some s \<Rightarrow> if s \<noteq> [] then (s, w) else create_session E (req_model req) w)"

text \<open>
  The message list of the payload (lines 150 to 158 and 221 to 228):
  \<^verbatim>\<open>get_session_messages\<close>, then the system prompt inserted at index 0
  \<^verbatim>\<open>if request.system_prompt\<close>. The list is a new one, so the insertion does not reach
  the stored history.
\<close>

definition prepare_messages :: "chat_request \<Rightarrow> string \<Rightarrow> world \<Rightarrow> (string \<times> json) list" where
  "prepare_messages req sid w =
     (let msgs = get_session_messages sid w
      in case system_prompt req of
           None \<Rightarrow> msgs
         | Some p \<Rightarrow> if p \<noteq> [] then (''system'', JStr p) # msgs else msgs)"

text \<open>
  Appending the user message with the time of the append (lines 142 to 148 and 213 to
  219). \<^verbatim>\<open>last_updated\<close> is not assigned here.
\<close>

definition add_user_message :: "env \<Rightarrow> chat_request \<Rightarrow> string \<Rightarrow> world \<Rightarrow> world" where
  "add_user_message E req sid w =
     (let (t, w1) = now E w
      in append_message sid \<lparr>role = ''user'', content = JStr (message req), timestamp = t\<rparr> w1)"

text \<open>
  Appending the assistant message and setting \<^verbatim>\<open>last_updated\<close> (lines 175 to 182 in
  \<^verbatim>\<open>chat_with_model\<close>, lines 254 to 261 in the generator of \<^verbatim>\<open>chat_stream\<close>): the
  clock is read for the timestamp of the message and again for \<^verbatim>\<open>last_updated\<close>.
\<close>

definition commit_assistant :: "env \<Rightarrow> string \<Rightarrow> json \<Rightarrow> world \<Rightarrow> world" where
  "commit_assistant E sid c w =
     (let (t1, w1) = now E w;
          w2 = append_message sid \<lparr>role = ''assistant'', content = c, timestamp = t1\<rparr> w1;
          (t2, w3) = now E w2
      in set_last_updated sid t2 w3)"

subsection \<open>\<^verbatim>\<open>POST /api/chat\<close>\<close>

text \<open>
  \<^verbatim>\<open>chat_with_model\<close> is lines 126 to 196.
  What \<^verbatim>\<open>client.post\<close> followed by \<^verbatim>\<open>raise_for_status\<close> does: raise
  \<^verbatim>\<open>httpx.RequestError\<close>, raise \<^verbatim>\<open>httpx.HTTPStatusError\<close>, or return a response with
  the given body text.
\<close>

datatype httpx_outcome =
    RaisesRequestError
  | RaisesHTTPStatusError nat string
  | Returns string

text \<open>
  The \<^verbatim>\<open>try\<close> block up to the payload (lines 130 to 166): the session is resolved,
  the model is compared with the session's, the user message is appended and the message
  list is built. The result is the session id and the payload.
\<close>

definition chat_with_model_request ::
  "env \<Rightarrow> chat_request \<Rightarrow> world \<Rightarrow> world \<times> (py_exception + string \<times> chat_payload)" where
  "chat_with_model_request E req w =
     (let (sid, w1) = resolve_session_id E req w
      in case map_of (chat_sessions w1) sid of
           None \<Rightarrow> (w1, Inl (HTTPException 404 (Detail ''Session not found'')))
         | Some s \<Rightarrow>
             if model s \<noteq> req_model req
             then (w1, Inl (HTTPException 400 (Detail ''Model mismatch with session'')))
             else
               (let w2 = add_user_message E req sid w1
                in (w2, Inr (sid, \<lparr>pl_model = req_model req,
                                    pl_messages = prepare_messages req sid w2,
                                    pl_stream = False\<rparr>))))"

text \<open>
  From the answer of the server to \<^verbatim>\<open>data["message"]["content"]\<close> (lines 168 to
  173): the exception raised on the way, or the content.
\<close>

definition assistant_content :: "env \<Rightarrow> httpx_outcome \<Rightarrow> py_exception + json" where
  "assistant_content E out =
     (case out of
        RaisesRequestError \<Rightarrow> Inl RequestError
      | RaisesHTTPStatusError code txt \<Rightarrow> Inl (HTTPStatusError code txt)
      | Returns body \<Rightarrow>
          (case json_loads E body of
             None \<Rightarrow> Inl JSONDecodeError
           | Some data \<Rightarrow>
               (case py_getitem data ''message'' of
                  Inl e \<Rightarrow> Inl e
                | Inr m \<Rightarrow> py_getitem m ''content'')))"

text \<open>
  From the answer of the server to the end of the \<^verbatim>\<open>try\<close> block (lines 168 to
  189): nothing is stored when the answer gives no content. The timestamp of
  the response is read before \<^verbatim>\<open>ChatResponse\<close> validates its \<^verbatim>\<open>response: str\<close> field
  (a content that is not a string is refused there, as pydantic 2 does).
\<close>

definition chat_with_model_reply ::
  "env \<Rightarrow> chat_request \<Rightarrow> string \<Rightarrow> httpx_outcome \<Rightarrow> world \<Rightarrow> world \<times> (py_exception + chat_response)" where
  "chat_with_model_reply E req sid out w =
     (case assistant_content E out of
        Inl e \<Rightarrow> (w, Inl e)
      | Inr c \<Rightarrow>
          (let w1 = commit_assistant E sid c w;
               (t, w2) = now E w1
           in case c of
                JStr txt \<Rightarrow>
                  (w2, Inr \<lparr>response = txt, resp_session_id = sid,
                            resp_model = req_model req, resp_timestamp = t\<rparr>)
              | _ \<Rightarrow> (w2, Inl ValidationError)))"

text \<open>The whole \<^verbatim>\<open>try\<close> block: the payload is posted and the answer handled.\<close>

definition chat_with_model_try ::
  "env \<Rightarrow> chat_request \<Rightarrow> (chat_payload \<Rightarrow> httpx_outcome) \<Rightarrow> world \<Rightarrow> world \<times> (py_exception + chat_response)" where
  "chat_with_model_try E req ollama w =
     (case chat_with_model_request E req w of
        (w1, Inl e) \<Rightarrow> (w1, Inl e)
      | (w1, Inr (sid, payload)) \<Rightarrow> chat_with_model_reply E req sid (ollama payload) w1)"

text \<open>
  The three \<^verbatim>\<open>except\<close> clauses (lines 191 to 196), in the order of the source. An
  \<open>HTTPException\<close>
  raised inside the \<^verbatim>\<open>try\<close> block is an \<^verbatim>\<open>Exception\<close> and is neither of the two
  \<^verbatim>\<open>httpx\<close> classes, so the last clause catches it.
\<close>

fun chat_except :: "py_exception \<Rightarrow> py_exception" where
  "chat_except RequestError = HTTPException 503 (Detail ''Ollama server is not available'')"
| "chat_except (HTTPStatusError code txt) = HTTPException code (OllamaError txt)"
| "chat_except e = HTTPException 500 (ChatError e)"

definition chat_with_model ::
  "env \<Rightarrow> chat_request \<Rightarrow> (chat_payload \<Rightarrow> httpx_outcome) \<Rightarrow> world \<Rightarrow> world \<times> (py_exception + chat_response)" where
  "chat_with_model E req ollama w =
     (case chat_with_model_try E req ollama w of
        (w', Inl e) \<Rightarrow> (w', Inl (chat_except e))
      | (w', Inr r) \<Rightarrow> (w', Inr r))"

subsection \<open>\<^verbatim>\<open>POST /api/chat/stream\<close>\<close>

text \<open>
  \<^verbatim>\<open>chat_stream\<close> is lines 198 to 271. Its \<^verbatim>\<open>try\<close> block resolves the session and
  appends the user message; it does not compare the model of the request with the
  session's. Every exception of the block leaves as status 500 (lines 270 and 271).
  The endpoint returns a \<^verbatim>\<open>StreamingResponse\<close> around the generator; the generator
  closes over the session id and the message list (and, through the session id, over
  the session object). The closure stands for that response.
\<close>

record stream_closure =
  sc_session_id :: string
  sc_payload :: chat_payload

definition chat_stream_try ::
  "env \<Rightarrow> chat_request \<Rightarrow> world \<Rightarrow> world \<times> (py_exception + stream_closure)" where
  "chat_stream_try E req w =
     (let (sid, w1) = resolve_session_id E req w
      in case map_of (chat_sessions w1) sid of
           None \<Rightarrow> (w1, Inl (HTTPException 404 (Detail ''Session not found'')))
         | Some s \<Rightarrow>
             (let w2 = add_user_message E req sid w1
              in (w2, Inr \<lparr>sc_session_id = sid,
                           sc_payload = \<lparr>pl_model = req_model req,
                                          pl_messages = prepare_messages req sid w2,
                                          pl_stream = True\<rparr>\<rparr>)))"

definition chat_stream ::
  "env \<Rightarrow> chat_request \<Rightarrow> world \<Rightarrow> world \<times> (py_exception + stream_closure)" where
  "chat_stream E req w =
     (case chat_stream_try E req w of
        (w', Inl e) \<Rightarrow> (w', Inl (HTTPException 500 (StreamingError e)))
      | (w', Inr sc) \<Rightarrow> (w', Inr sc))"

text \<open>
  What the generator yields: a content chunk (the fragment and the session id) or the
  final marker. How the generator ends: after the marker, by running out of lines, or
  by an exception that leaves it.
\<close>

datatype chunk = ContentChunk string string | DoneChunk string

datatype stream_end = Completed | Exhausted | Raised py_exception

text \<open>
  What \<^verbatim>\<open>client.stream\<close>, \<^verbatim>\<open>raise_for_status\<close> and \<^verbatim>\<open>aiter_lines\<close> do: fail to
  connect, report a failure status, or deliver lines and then either end or fail with a
  \<^verbatim>\<open>httpx.RequestError\<close>.
\<close>

datatype stream_tail = EndOfStream | ReadFails

datatype stream_outcome =
    StreamRaisesRequestError
  | StreamRaisesHTTPStatusError nat string
  | StreamLines "string list" stream_tail

text \<open>
  The first \<^verbatim>\<open>if\<close> of the loop body on a decoded record (lines 245 to 250):
  \<open>Inr (Some c)\<close> when a
  fragment \<open>c\<close> is added to \<^verbatim>\<open>full_response\<close> and yielded, \<open>Inr None\<close> when the
  condition is false, \<open>Inl\<close> when an operation raises (\<^verbatim>\<open>full_response += content\<close>
  raises \<^verbatim>\<open>TypeError\<close> unless the content is a string).
\<close>

definition record_content :: "json \<Rightarrow> py_exception + string option" where
  "record_content data =
     (case py_contains ''message'' data of
        Inl e \<Rightarrow> Inl e
      | Inr has_message \<Rightarrow>
          if \<not> has_message then Inr None
          else
            (case py_getitem data ''message'' of
               Inl e \<Rightarrow> Inl e
             | Inr m \<Rightarrow>
                 (case py_contains ''content'' m of
                    Inl e \<Rightarrow> Inl e
                  | Inr has_content \<Rightarrow>
                      if \<not> has_content then Inr None
                      else
                        (case py_getitem m ''content'' of
                           Inl e \<Rightarrow> Inl e
                         | Inr (JStr c) \<Rightarrow> Inr (Some c)
                         | Inr _ \<Rightarrow> Inl TypeError))))"

text \<open>
  The \<^verbatim>\<open>async for\<close> loop over the lines (lines 241 to 266), with
  \<^verbatim>\<open>full_response\<close> as accumulator. It returns the state, the chunks yielded from here
  on and how the generator ends. An empty line and a line that does not decode are
  passed over; only \<^verbatim>\<open>json.JSONDecodeError\<close> is caught, every other exception leaves the
  generator. The fragment of a record is yielded before its \<^verbatim>\<open>done\<close> entry is read.
\<close>

fun generate_loop ::
  "env \<Rightarrow> string \<Rightarrow> string list \<Rightarrow> stream_tail \<Rightarrow> string \<Rightarrow> world \<Rightarrow> world \<times> chunk list \<times> stream_end" where
  "generate_loop E sid [] tail full_response w =
     (w, [], case tail of EndOfStream \<Rightarrow> Exhausted | ReadFails \<Rightarrow> Raised RequestError)"
| "generate_loop E sid (line # rest) tail full_response w =
     (if line = [] then generate_loop E sid rest tail full_response w
      else
        (case json_loads E line of
           None \<Rightarrow> generate_loop E sid rest tail full_response w
         | Some data \<Rightarrow>
             (case record_content data of
                Inl e \<Rightarrow> (w, [], Raised e)
              | Inr fragment \<Rightarrow>
                  (let full_response' =
                         (case fragment of None \<Rightarrow> full_response | Some c \<Rightarrow> full_response @ c);
                       yielded =
                         (case fragment of None \<Rightarrow> [] | Some c \<Rightarrow> [ContentChunk c sid])
                   in case py_get data ''done'' (JBool False) of
                        Inl e \<Rightarrow> (w, yielded, Raised e)
                      | Inr d \<Rightarrow>
                          if truthy d
                          then (commit_assistant E sid (JStr full_response') w,
                                yielded @ [DoneChunk sid], Completed)
                          else
                            (case generate_loop E sid rest tail full_response' w of
                               (w', ys, e) \<Rightarrow> (w', yielded @ ys, e))))))"

text \<open>The generator (lines 230 to 266): the stream is opened, then the loop runs.\<close>

definition generate ::
  "env \<Rightarrow> stream_closure \<Rightarrow> (chat_payload \<Rightarrow> stream_outcome) \<Rightarrow> world \<Rightarrow> world \<times> chunk list \<times> stream_end" where
  "generate E sc ollama w =
     (case ollama (sc_payload sc) of
        StreamRaisesRequestError \<Rightarrow> (w, [], Raised RequestError)
      | StreamRaisesHTTPStatusError code txt \<Rightarrow> (w, [], Raised (HTTPStatusError code txt))
      | StreamLines ls tail \<Rightarrow> generate_loop E (sc_session_id sc) ls tail [] w)"

text \<open>A whole streaming turn: the endpoint, then the server runs the generator to its end.\<close>

definition stream_turn ::
  "env \<Rightarrow> chat_request \<Rightarrow> (chat_payload \<Rightarrow> stream_outcome) \<Rightarrow> world \<Rightarrow> world \<times> (py_exception + chunk list \<times> stream_end)" where
  "stream_turn E req ollama w =
     (case chat_stream E req w of
        (w1, Inl e) \<Rightarrow> (w1, Inl e)
      | (w1, Inr sc) \<Rightarrow>
          (case generate E sc ollama w1 of (w2, ys, e) \<Rightarrow> (w2, Inr (ys, e))))"

subsection \<open>The session endpoints\<close>

text \<open>
  \<^verbatim>\<open>list_sessions\<close> (lines 273 to 285), \<^verbatim>\<open>get_session\<close> (lines 287 to 300) and
  \<^verbatim>\<open>delete_session\<close> (lines 302 to 309).
  \<^verbatim>\<open>sorted(xs, key=f, reverse=True)\<close>: CPython reverses the list, sorts it with its
  stable sort and reverses the result, so equal keys keep their order.
\<close>

definition py_sorted_reverse :: "('a \<Rightarrow> 'k::linorder) \<Rightarrow> 'a list \<Rightarrow> 'a list" where
  "py_sorted_reverse f xs = rev (sort_key f (rev xs))"

definition session_summary :: "string \<times> session \<Rightarrow> session_info" where
  "session_summary kv =
     \<lparr>info_session_id = fst kv, info_model = model (snd kv),
      info_created_at = created_at (snd kv), info_last_updated = last_updated (snd kv),
      message_count = length (messages (snd kv))\<rparr>"

definition list_sessions :: "world \<Rightarrow> session_info list" where
  "list_sessions w = py_sorted_reverse info_last_updated (map session_summary (chat_sessions w))"

definition get_session :: "string \<Rightarrow> world \<Rightarrow> py_exception + string \<times> session" where
  "get_session sid w =
     (case map_of (chat_sessions w) sid of
        None \<Rightarrow> Inl (HTTPException 404 (Detail ''Session not found''))
      | Some s \<Rightarrow> Inr (sid, s))"

definition delete_session :: "string \<Rightarrow> world \<Rightarrow> world \<times> (py_exception + unit)" where
  "delete_session sid w =
     (case map_of (chat_sessions w) sid of
        None \<Rightarrow> (w, Inl (HTTPException 404 (Detail ''Session not found'')))
      | Some s \<Rightarrow> (w\<lparr>chat_sessions := AList.delete sid (chat_sessions w)\<rparr>, Inr ()))"

text \<open>\<^verbatim>\<open>[m["name"] for m in ...]\<close>\<close>

fun model_names :: "json list \<Rightarrow> py_exception + json list" where
  "model_names [] = Inr []"
| "model_names (m # ms) =
     (case py_getitem m ''name'' of
        Inl e \<Rightarrow> Inl e
      | Inr n \<Rightarrow> (case model_names ms of Inl e \<Rightarrow> Inl e | Inr ns \<Rightarrow> Inr (n # ns)))"

text \<open>
  \<^verbatim>\<open>create_new_session\<close> (lines 311 to 332), \<^verbatim>\<open>POST /api/sessions\<close>; the argument
  \<open>tags\<close> is what \<^verbatim>\<open>GET /api/tags\<close> does. Only
  \<^verbatim>\<open>httpx.RequestError\<close> is caught here; every other exception leaves the endpoint as
  it is. The result is the session id, the model and \<^verbatim>\<open>created_at\<close>.
\<close>

definition create_new_session ::
  "env \<Rightarrow> string \<Rightarrow> httpx_outcome \<Rightarrow> world \<Rightarrow> world \<times> (py_exception + string \<times> string \<times> nat)" where
  "create_new_session E m tags w =
     (case tags of
        RaisesRequestError \<Rightarrow>
          (w, Inl (HTTPException 503 (Detail ''Ollama server is not available'')))
      | RaisesHTTPStatusError code txt \<Rightarrow> (w, Inl (HTTPStatusError code txt))
      | Returns body \<Rightarrow>
          (case json_loads E body of
             None \<Rightarrow> (w, Inl JSONDecodeError)
           | Some data \<Rightarrow>
               (case py_get data ''models'' (JArr []) of
                  Inl e \<Rightarrow> (w, Inl e)
                | Inr ms \<Rightarrow>
                    (case py_iter ms of
                       Inl e \<Rightarrow> (w, Inl e)
                     | Inr items \<Rightarrow>
                         (case model_names items of
                            Inl e \<Rightarrow> (w, Inl e)
                          | Inr available_models \<Rightarrow>
                              if JStr m \<notin> set available_models
                              then (w, Inl (HTTPException 400 (ModelNotAvailable m)))
                              else
                                (let (sid, w1) = create_session E m w
                                 in case map_of (chat_sessions w1) sid of
                                      None \<Rightarrow> (w1, Inl KeyError)
                                    | Some s \<Rightarrow> (w1, Inr (sid, m, created_at s))))))))"

subsection \<open>Sequences of requests\<close>

text \<open>
  A request with what the backend does for it, and the state after serving it. Requests
  are served one after the other; a streaming request is served to the end of its
  generator.
\<close>

datatype request =
    Chat chat_request "chat_payload \<Rightarrow> httpx_outcome"
  | ChatStream chat_request "chat_payload \<Rightarrow> stream_outcome"
  | ListSessions
  | GetSession string
  | DeleteSession string
  | CreateNewSession string httpx_outcome

fun serve :: "env \<Rightarrow> world \<Rightarrow> request \<Rightarrow> world" where
  "serve E w (Chat req ollama) = fst (chat_with_model E req ollama w)"
| "serve E w (ChatStream req ollama) = fst (stream_turn E req ollama w)"
| "serve E w ListSessions = w"
| "serve E w (GetSession sid) = w"
| "serve E w (DeleteSession sid) = fst (delete_session sid w)"
| "serve E w (CreateNewSession m tags) = fst (create_new_session E m tags w)"

fun serve_all :: "env \<Rightarrow> world \<Rightarrow> request list \<Rightarrow> world" where
  "serve_all E w [] = w"
| "serve_all E w (r # rs) = serve_all E (serve E w r) rs"

subsection \<open>Notions used in the statements\<close>

text \<open>The content fragments among the chunks a generator yielded, in the order of the yields.\<close>

fun fragments :: "chunk list \<Rightarrow> string list" where
  "fragments [] = []"
| "fragments (ContentChunk c sid # ys) = c # fragments ys"
| "fragments (DoneChunk sid # ys) = fragments ys"

text \<open>A line that decodes to a record whose \<^verbatim>\<open>done\<close> entry is true in Python's sense.\<close>

definition done_flag :: "env \<Rightarrow> string \<Rightarrow> bool" where
  "done_flag E line =
     (line \<noteq> [] \<and>
      (case json_loads E line of
         Some (JObj kvs) \<Rightarrow> truthy (case map_of kvs ''done'' of None \<Rightarrow> JBool False | Some v \<Rightarrow> v)
       | _ \<Rightarrow> False))"

text \<open>A line the loop does not skip: it is not empty and it decodes.\<close>

definition decodes :: "env \<Rightarrow> string \<Rightarrow> bool" where
  "decodes E line = (line \<noteq> [] \<and> json_loads E line \<noteq> None)"

text \<open>
  In a history, newest message first: every assistant message has a message before it
  in the conversation, and that message is a user message.
\<close>

fun follows_user :: "chat_message list \<Rightarrow> bool" where
  "follows_user [] = True"
| "follows_user [m] = (role m \<noteq> ''assistant'')"
| "follows_user (m # p # ms) =
     ((role m \<noteq> ''assistant'' \<or> role p = ''user'') \<and> follows_user (p # ms))"

definition well_paired :: "chat_message list \<Rightarrow> bool" where
  "well_paired msgs = follows_user (rev msgs)"

definition paired :: "world \<Rightarrow> bool" where
  "paired w =
     (\<forall>k \<in> fst ` set (chat_sessions w).
        case map_of (chat_sessions w) k of None \<Rightarrow> True | Some s \<Rightarrow> well_paired (messages s))"

text \<open>
  Session \<open>k\<close> of \<open>w\<close> is still a session of \<open>w'\<close>, with the same model and a history
  that starts with the old one.
\<close>

definition keeps :: "string \<Rightarrow> world \<Rightarrow> world \<Rightarrow> bool" where
  "keeps k w w' =
     (case map_of (chat_sessions w) k of
        None \<Rightarrow> False
      | Some s \<Rightarrow>
          (case map_of (chat_sessions w') k of
             None \<Rightarrow> False
           | Some s' \<Rightarrow>
               model s' = model s \<and> prefix (messages s) (messages s') \<and>
               length (messages s) \<le> length (messages s')))"

text \<open>
  Along a sequence of requests: the identifier \<^verbatim>\<open>uuid4\<close> would return next is never
  one of a live session, and session \<open>k\<close> is live before and after every request.
\<close>

fun fresh_ids :: "env \<Rightarrow> world \<Rightarrow> request list \<Rightarrow> bool" where
  "fresh_ids E w [] = True"
| "fresh_ids E w (r # rs) =
     (uuid4 E (uuid_draws w) \<notin> fst ` set (chat_sessions w) \<and> fresh_ids E (serve E w r) rs)"

fun alive :: "string \<Rightarrow> env \<Rightarrow> world \<Rightarrow> request list \<Rightarrow> bool" where
  "alive k E w [] = (k \<in> fst ` set (chat_sessions w))"
| "alive k E w (r # rs) = (k \<in> fst ` set (chat_sessions w) \<and> alive k E (serve E w r) rs)"

subsection \<open>Example data\<close>

text \<open>
  An environment, two backends and two states on which theorems are instantiated. The
  decoder of the example knows four texts; every other text does not decode.
\<close>

definition demo_loads :: "string \<Rightarrow> json option" where
  "demo_loads =
     map_of
       [(''hello'', JObj [(''message'', JObj [(''content'', JStr ''hello'')])]),
        (''he'', JObj [(''message'', JObj [(''content'', JStr ''he'')]), (''done'', JBool False)]),
        (''llo'', JObj [(''message'', JObj [(''content'', JStr ''llo'')]), (''done'', JBool True)]),
        (''x'', JObj [(''message'', JObj [(''content'', JStr ''x'')]), (''done'', JBool False)])]"

definition demo_env :: env where
  "demo_env = \<lparr>clock = (\<lambda>n. 100 + n), uuid4 = (\<lambda>n. replicate (Suc n) CHR ''u''),
               json_loads = demo_loads\<rparr>"

definition empty_world :: world where
  "empty_world = \<lparr>chat_sessions = [], clock_reads = 0, uuid_draws = 0\<rparr>"

definition demo_world :: world where
  "demo_world =
     \<lparr>chat_sessions =
        [(''s1'', \<lparr>model = ''m1'', messages = [], created_at = 1, last_updated = 2\<rparr>),
         (''s2'', \<lparr>model = ''m1'', messages = [], created_at = 3, last_updated = 7\<rparr>)],
      clock_reads = 0, uuid_draws = 0\<rparr>"

definition demo_request :: "string option \<Rightarrow> string \<Rightarrow> chat_request" where
  "demo_request sid m = \<lparr>message = ''hi'', req_model = m, session_id = sid, system_prompt = None\<rparr>"

definition demo_ollama :: "chat_payload \<Rightarrow> httpx_outcome" where
  "demo_ollama p = Returns ''hello''"

definition demo_stream :: "chat_payload \<Rightarrow> stream_outcome" where
  "demo_stream p = StreamLines [''he'', ''?'', ''llo'', ''x''] EndOfStream"

definition demo_broken_stream :: "chat_payload \<Rightarrow> stream_outcome" where
  "demo_broken_stream p = StreamLines [''he'', ''?'', ''x''] ReadFails"

section \<open>Basic facts about the state operations\<close>

lemmas endpoint_defs =
  chat_with_model_def chat_with_model_try_def chat_with_model_request_def chat_with_model_reply_def
  assistant_content_def chat_stream_def chat_stream_try_def stream_turn_def generate_def
  resolve_session_id_def create_session_def add_user_message_def commit_assistant_def
  append_message_def set_last_updated_def now_def prepare_messages_def get_session_messages_def
  record_content_def list_sessions_def get_session_def delete_session_def create_new_session_def
  py_sorted_reverse_def session_summary_def

lemmas demo_defs =
  demo_env_def demo_loads_def demo_world_def empty_world_def demo_request_def demo_ollama_def
  demo_stream_def demo_broken_stream_def

lemma now_simps [simp]:
  "fst (now E w) = clock E (clock_reads w)"
  "chat_sessions (snd (now E w)) = chat_sessions w"
  "clock_reads (snd (now E w)) = Suc (clock_reads w)"
  "uuid_draws (snd (now E w)) = uuid_draws w"
  by (simp_all add: now_def)

lemma counters_append_message [simp]:
  "clock_reads (append_message sid msg w) = clock_reads w"
  "uuid_draws (append_message sid msg w) = uuid_draws w"
  by (simp_all add: append_message_def)

lemma counters_set_last_updated [simp]:
  "clock_reads (set_last_updated sid t w) = clock_reads w"
  "uuid_draws (set_last_updated sid t w) = uuid_draws w"
  by (simp_all add: set_last_updated_def)

lemma lookup_append_message:
  "map_of (chat_sessions (append_message sid msg w)) k =
     (if k = sid
      then map_option (\<lambda>s. s\<lparr>messages := messages s @ [msg]\<rparr>) (map_of (chat_sessions w) sid)
      else map_of (chat_sessions w) k)"
  by (simp add: append_message_def map_of_map_entry split: option.split)

lemma lookup_set_last_updated:
  "map_of (chat_sessions (set_last_updated sid t w)) k =
     (if k = sid
      then map_option (\<lambda>s. s\<lparr>last_updated := t\<rparr>) (map_of (chat_sessions w) sid)
      else map_of (chat_sessions w) k)"
  by (simp add: set_last_updated_def map_of_map_entry split: option.split)

lemma lookup_add_user_message:
  "map_of (chat_sessions (add_user_message E req sid w)) k =
     (if k = sid
      then map_option
             (\<lambda>s. s\<lparr>messages := messages s @
                      [\<lparr>role = ''user'', content = JStr (message req),
                        timestamp = clock E (clock_reads w)\<rparr>]\<rparr>)
             (map_of (chat_sessions w) sid)
      else map_of (chat_sessions w) k)"
  by (simp add: add_user_message_def now_def lookup_append_message)

lemma counters_add_user_message [simp]:
  "clock_reads (add_user_message E req sid w) = Suc (clock_reads w)"
  "uuid_draws (add_user_message E req sid w) = uuid_draws w"
  by (simp_all add: add_user_message_def now_def)

lemma lookup_commit_assistant:
  "map_of (chat_sessions (commit_assistant E sid c w)) k =
     (if k = sid
      then map_option
             (\<lambda>s. s\<lparr>messages := messages s @
                      [\<lparr>role = ''assistant'', content = c, timestamp = clock E (clock_reads w)\<rparr>],
                    last_updated := clock E (Suc (clock_reads w))\<rparr>)
             (map_of (chat_sessions w) sid)
      else map_of (chat_sessions w) k)"
  by (simp add: commit_assistant_def now_def lookup_append_message lookup_set_last_updated
        option.map_comp comp_def)

lemma counters_commit_assistant [simp]:
  "clock_reads (commit_assistant E sid c w) = Suc (Suc (clock_reads w))"
  "uuid_draws (commit_assistant E sid c w) = uuid_draws w"
  by (simp_all add: commit_assistant_def now_def)

lemma create_session_id [simp]: "fst (create_session E m w) = uuid4 E (uuid_draws w)"
  by (simp add: create_session_def now_def Let_def)

lemma lookup_create_session:
  "map_of (chat_sessions (snd (create_session E m w))) k =
     (if k = uuid4 E (uuid_draws w)
      then Some \<lparr>model = m, messages = [], created_at = clock E (clock_reads w),
                 last_updated = clock E (Suc (clock_reads w))\<rparr>
      else map_of (chat_sessions w) k)"
  by (simp add: create_session_def now_def Let_def update_conv')

lemma counters_create_session [simp]:
  "clock_reads (snd (create_session E m w)) = Suc (Suc (clock_reads w))"
  "uuid_draws (snd (create_session E m w)) = Suc (uuid_draws w)"
  by (simp_all add: create_session_def now_def Let_def)

section \<open>The loop of the streaming generator\<close>

lemma fragments_append [simp]: "fragments (xs @ ys) = fragments xs @ fragments ys"
  by (induction xs rule: fragments.induct) simp_all

lemma fragments_content [simp]: "fragments (map (\<lambda>c. ContentChunk c sid) zs) = zs"
  by (induction zs) simp_all

lemma line_cases [case_names skip raises raises_done completes continues]:
  obtains "\<not> decodes E line"
  | data e where "line \<noteq> []" "json_loads E line = Some data" "record_content data = Inl e"
  | data fr e where "line \<noteq> []" "json_loads E line = Some data" "record_content data = Inr fr"
      "py_get data ''done'' (JBool False) = Inl e"
  | data fr d where "line \<noteq> []" "json_loads E line = Some data" "record_content data = Inr fr"
      "py_get data ''done'' (JBool False) = Inr d" "truthy d"
  | data fr d where "line \<noteq> []" "json_loads E line = Some data" "record_content data = Inr fr"
      "py_get data ''done'' (JBool False) = Inr d" "\<not> truthy d"
proof (cases "decodes E line")
  case False
  then show ?thesis using that(1) by simp
next
  case True
  then obtain data where data: "line \<noteq> []" "json_loads E line = Some data"
    by (auto simp: decodes_def)
  show ?thesis
  proof (cases "record_content data")
    case (Inl e)
    with data show ?thesis using that(2) by simp
  next
    case fr: (Inr fr)
    show ?thesis
    proof (cases "py_get data ''done'' (JBool False)")
      case (Inl e)
      with data fr show ?thesis using that(3) by simp
    next
      case (Inr d)
      with data fr show ?thesis using that(4,5) by (cases "truthy d") simp_all
    qed
  qed
qed

lemma generate_loop_skip:
  "\<not> decodes E line \<Longrightarrow>
     generate_loop E sid (line # rest) tail full w = generate_loop E sid rest tail full w"
  by (auto simp: decodes_def)

lemma generate_loop_raises:
  "line \<noteq> [] \<Longrightarrow> json_loads E line = Some data \<Longrightarrow> record_content data = Inl e \<Longrightarrow>
     generate_loop E sid (line # rest) tail full w = (w, [], Raised e)"
  by simp

lemma generate_loop_raises_done:
  "line \<noteq> [] \<Longrightarrow> json_loads E line = Some data \<Longrightarrow> record_content data = Inr fr \<Longrightarrow>
   py_get data ''done'' (JBool False) = Inl e \<Longrightarrow>
     generate_loop E sid (line # rest) tail full w =
       (w, map (\<lambda>c. ContentChunk c sid) (case fr of None \<Rightarrow> [] | Some c \<Rightarrow> [c]), Raised e)"
  by (simp split: option.splits)

lemma generate_loop_completes:
  "line \<noteq> [] \<Longrightarrow> json_loads E line = Some data \<Longrightarrow> record_content data = Inr fr \<Longrightarrow>
   py_get data ''done'' (JBool False) = Inr d \<Longrightarrow> truthy d \<Longrightarrow>
     generate_loop E sid (line # rest) tail full w =
       (commit_assistant E sid (JStr (full @ concat (case fr of None \<Rightarrow> [] | Some c \<Rightarrow> [c]))) w,
        map (\<lambda>c. ContentChunk c sid) (case fr of None \<Rightarrow> [] | Some c \<Rightarrow> [c]) @ [DoneChunk sid],
        Completed)"
  by (simp split: option.splits)

lemma generate_loop_continues:
  "line \<noteq> [] \<Longrightarrow> json_loads E line = Some data \<Longrightarrow> record_content data = Inr fr \<Longrightarrow>
   py_get data ''done'' (JBool False) = Inr d \<Longrightarrow> \<not> truthy d \<Longrightarrow>
     generate_loop E sid (line # rest) tail full w =
       (case generate_loop E sid rest tail
               (full @ concat (case fr of None \<Rightarrow> [] | Some c \<Rightarrow> [c])) w of
          (w', ys, e) \<Rightarrow>
            (w', map (\<lambda>c. ContentChunk c sid) (case fr of None \<Rightarrow> [] | Some c \<Rightarrow> [c]) @ ys, e))"
  by (simp split: option.splits)

lemma generate_loop_spec:
  "generate_loop E sid ls tail full w = (w', ys, e) \<Longrightarrow>
     \<exists>zs. ys = map (\<lambda>c. ContentChunk c sid) zs @ (if e = Completed then [DoneChunk sid] else []) \<and>
          w' = (if e = Completed then commit_assistant E sid (JStr (full @ concat zs)) w else w)"
proof (induction ls arbitrary: full ys w' e)
  case Nil
  then show ?case by (auto split: stream_tail.splits)
next
  case (Cons line rest)
  show ?case
  proof (cases rule: line_cases [of E line])
    case skip
    from Cons.prems show ?thesis
      unfolding generate_loop_skip [OF skip] by (rule Cons.IH)
  next
    case (raises data e')
    from Cons.prems show ?thesis
      unfolding generate_loop_raises [OF raises] by auto
  next
    case (raises_done data fr e')
    from Cons.prems show ?thesis
      unfolding generate_loop_raises_done [OF raises_done] by auto
  next
    case (completes data fr d)
    from Cons.prems show ?thesis
      unfolding generate_loop_completes [OF completes] by auto
  next
    case (continues data fr d)
    let ?c = "case fr of None \<Rightarrow> [] | Some c \<Rightarrow> [c]"
    obtain w2 ys2 e2 where rec: "generate_loop E sid rest tail (full @ concat ?c) w = (w2, ys2, e2)"
      by (cases "generate_loop E sid rest tail (full @ concat ?c) w") auto
    from Cons.IH [OF rec] obtain zs where zs:
      "ys2 = map (\<lambda>c. ContentChunk c sid) zs @ (if e2 = Completed then [DoneChunk sid] else [])"
      "w2 = (if e2 = Completed
             then commit_assistant E sid (JStr ((full @ concat ?c) @ concat zs)) w else w)"
      by blast
    from Cons.prems rec have res: "w' = w2" "ys = map (\<lambda>c. ContentChunk c sid) ?c @ ys2" "e = e2"
      unfolding generate_loop_continues [OF continues] by simp_all
    have "ys = map (\<lambda>c. ContentChunk c sid) (?c @ zs) @ (if e = Completed then [DoneChunk sid] else [])"
      using res zs by simp
    moreover have "w' = (if e = Completed
        then commit_assistant E sid (JStr (full @ concat (?c @ zs))) w else w)"
      using res zs by simp
    ultimately show ?thesis by blast
  qed
qed

lemma generate_loop_completed:
  assumes "generate_loop E sid ls tail full w = (w', ys, Completed)"
  shows "w' = commit_assistant E sid (JStr (full @ concat (fragments ys))) w"
  using generate_loop_spec [OF assms] by auto

lemma generate_loop_not_completed:
  assumes "generate_loop E sid ls tail full w = (w', ys, e)" and "e \<noteq> Completed"
  shows "w' = w" and "DoneChunk sid' \<notin> set ys"
  using generate_loop_spec [OF assms(1)] assms(2) by auto

lemma generate_loop_filter:
  "generate_loop E sid (filter (decodes E) ls) tail full w = generate_loop E sid ls tail full w"
proof (induction ls arbitrary: full)
  case Nil
  show ?case by simp
next
  case (Cons line rest)
  show ?case
  proof (cases rule: line_cases [of E line])
    case skip
    show ?thesis unfolding generate_loop_skip [OF skip] using skip by (simp add: Cons)
  next
    case (raises data e)
    then have keep: "filter (decodes E) (line # rest) = line # filter (decodes E) rest"
      by (simp add: decodes_def)
    show ?thesis unfolding keep generate_loop_raises [OF raises] ..
  next
    case (raises_done data fr e)
    then have keep: "filter (decodes E) (line # rest) = line # filter (decodes E) rest"
      by (simp add: decodes_def)
    show ?thesis unfolding keep generate_loop_raises_done [OF raises_done] ..
  next
    case (completes data fr d)
    then have keep: "filter (decodes E) (line # rest) = line # filter (decodes E) rest"
      by (simp add: decodes_def)
    show ?thesis unfolding keep generate_loop_completes [OF completes] ..
  next
    case (continues data fr d)
    then have keep: "filter (decodes E) (line # rest) = line # filter (decodes E) rest"
      by (simp add: decodes_def)
    show ?thesis unfolding keep generate_loop_continues [OF continues] Cons ..
  qed
qed

lemma done_flag_cases:
  assumes "done_flag E line"
  obtains data e where "line \<noteq> []" "json_loads E line = Some data" "record_content data = Inl e"
  | data fr d where "line \<noteq> []" "json_loads E line = Some data" "record_content data = Inr fr"
      "py_get data ''done'' (JBool False) = Inr d" "truthy d"
proof -
  from assms obtain kvs where kvs: "line \<noteq> []" "json_loads E line = Some (JObj kvs)"
    "truthy (case map_of kvs ''done'' of None \<Rightarrow> JBool False | Some v \<Rightarrow> v)"
    by (auto simp: done_flag_def split: option.splits json.splits)
  show ?thesis
  proof (cases "record_content (JObj kvs)")
    case (Inl e)
    with kvs show ?thesis using that(1) by blast
  next
    case (Inr fr)
    with kvs show ?thesis using that(2) [of "JObj kvs" fr] by simp
  qed
qed

lemma done_record_ends_loop:
  assumes "done_flag E line"
  shows "generate_loop E sid (line # post) tail full w = generate_loop E sid [line] tail' full w"
  using assms
proof (cases rule: done_flag_cases)
  case (1 data e)
  show ?thesis unfolding generate_loop_raises [OF 1] ..
next
  case (2 data fr d)
  show ?thesis unfolding generate_loop_completes [OF 2] ..
qed

lemma done_record_cuts_stream:
  assumes "done_flag E line"
  shows "generate_loop E sid (pre @ line # post) tail full w =
         generate_loop E sid (pre @ [line]) tail' full w"
proof (induction pre arbitrary: full)
  case Nil
  from assms show ?case
    by (simp only: append_Nil done_record_ends_loop [of E line sid post tail full w tail'])
next
  case (Cons l pre)
  show ?case
  proof (cases rule: line_cases [of E l])
    case skip
    show ?thesis unfolding append_Cons generate_loop_skip [OF skip] by (rule Cons)
  next
    case (raises data e)
    show ?thesis unfolding append_Cons generate_loop_raises [OF raises] ..
  next
    case (raises_done data fr e)
    show ?thesis unfolding append_Cons generate_loop_raises_done [OF raises_done] ..
  next
    case (completes data fr d)
    show ?thesis unfolding append_Cons generate_loop_completes [OF completes] ..
  next
    case (continues data fr d)
    show ?thesis unfolding append_Cons generate_loop_continues [OF continues] Cons ..
  qed
qed

lemma not_done_flag:
  assumes "\<not> done_flag E line" "line \<noteq> []" "json_loads E line = Some data"
    "py_get data ''done'' (JBool False) = Inr d"
  shows "\<not> truthy d"
  using assms by (cases data) (auto simp: done_flag_def)

lemma completed_needs_done_record:
  "generate_loop E sid ls tail full w = (w', ys, Completed) \<Longrightarrow> \<exists>l \<in> set ls. done_flag E l"
proof (induction ls arbitrary: full ys)
  case Nil
  then show ?case by (simp split: stream_tail.splits)
next
  case (Cons line rest)
  show ?case
  proof (cases rule: line_cases [of E line])
    case skip
    from Cons.prems have "generate_loop E sid rest tail full w = (w', ys, Completed)"
      unfolding generate_loop_skip [OF skip] .
    from Cons.IH [OF this] show ?thesis by simp
  next
    case (raises data e)
    from Cons.prems show ?thesis
      unfolding generate_loop_raises [OF raises] by simp
  next
    case (raises_done data fr e)
    from Cons.prems show ?thesis
      unfolding generate_loop_raises_done [OF raises_done] by simp
  next
    case (completes data fr d)
    then have "done_flag E line"
      using not_done_flag [of E line data d] by blast
    then show ?thesis by simp
  next
    case (continues data fr d)
    from Cons.prems obtain full' ys' where
      "generate_loop E sid rest tail full' w = (w', ys', Completed)"
      unfolding generate_loop_continues [OF continues] by (auto split: prod.splits)
    from Cons.IH [OF this] show ?thesis by simp
  qed
qed

section \<open>Streaming turns\<close>

lemma chat_stream_returns:
  assumes "chat_stream E req w = (w1, Inr sc)"
  obtains w0 s0 where
    "resolve_session_id E req w = (sc_session_id sc, w0)"
    "map_of (chat_sessions w0) (sc_session_id sc) = Some s0"
    "w1 = add_user_message E req (sc_session_id sc) w0"
    "sc_payload sc = \<lparr>pl_model = req_model req,
                        pl_messages = prepare_messages req (sc_session_id sc) w1,
                        pl_stream = True\<rparr>"
proof -
  obtain sid w0 where r: "resolve_session_id E req w = (sid, w0)"
    by (cases "resolve_session_id E req w") auto
  with assms obtain s0 where s0: "map_of (chat_sessions w0) sid = Some s0"
    by (cases "map_of (chat_sessions w0) sid") (auto simp: chat_stream_def chat_stream_try_def)
  from assms r s0 have "sc_session_id sc = sid" "w1 = add_user_message E req sid w0"
    "sc_payload sc = \<lparr>pl_model = req_model req, pl_messages = prepare_messages req sid w1,
                        pl_stream = True\<rparr>"
    by (auto simp: chat_stream_def chat_stream_try_def Let_def)
  with r s0 show ?thesis using that by blast
qed

lemma generate_not_completed:
  assumes "generate E sc ollama w1 = (w2, ys, e)" and "e \<noteq> Completed"
  shows "w2 = w1"
proof (cases "ollama (sc_payload sc)")
  case StreamRaisesRequestError
  with assms show ?thesis by (simp add: generate_def)
next
  case (StreamRaisesHTTPStatusError code body)
  with assms show ?thesis by (simp add: generate_def)
next
  case (StreamLines lines tail)
  with assms have "generate_loop E (sc_session_id sc) lines tail [] w1 = (w2, ys, e)"
    by (simp add: generate_def)
  from generate_loop_not_completed(1) [OF this assms(2)] show ?thesis .
qed

lemma generate_completed_lines:
  assumes "generate E sc ollama w1 = (w2, ys, Completed)"
  obtains lines tail where "ollama (sc_payload sc) = StreamLines lines tail"
    "generate_loop E (sc_session_id sc) lines tail [] w1 = (w2, ys, Completed)"
  using assms by (cases "ollama (sc_payload sc)") (auto simp: generate_def)

text \<open>
  C2. A streaming turn whose generator does not reach a record with the completion flag
  (the connection fails, the lines run out, or an exception leaves the generator) appends
  no assistant message: the state after the generator is the state in which the endpoint
  returned, and there the history of the session ends with the user message of the
  request. The generator reaches the flag only when some line carries it.
\<close>

theorem stream_without_completion_commits_nothing:
  assumes "chat_stream E req w = (w1, Inr sc)"
    and "generate E sc ollama w1 = (w2, ys, e)"
  shows "(e \<noteq> Completed \<longrightarrow> w2 = w1) \<and>
         ((\<forall>lines tail. ollama (sc_payload sc) = StreamLines lines tail \<longrightarrow>
             (\<forall>l \<in> set lines. \<not> done_flag E l)) \<longrightarrow> e \<noteq> Completed) \<and>
         (\<exists>s. map_of (chat_sessions w1) (sc_session_id sc) = Some s \<and> messages s \<noteq> [] \<and>
              role (last (messages s)) = ''user'' \<and>
              content (last (messages s)) = JStr (message req))"
proof (intro conjI impI)
  assume "e \<noteq> Completed"
  with assms(2) show "w2 = w1" by (rule generate_not_completed)
next
  assume none: "\<forall>lines tail. ollama (sc_payload sc) = StreamLines lines tail \<longrightarrow>
    (\<forall>l \<in> set lines. \<not> done_flag E l)"
  show "e \<noteq> Completed"
  proof
    assume "e = Completed"
    with assms(2) obtain lines tail where l: "ollama (sc_payload sc) = StreamLines lines tail"
      and g: "generate_loop E (sc_session_id sc) lines tail [] w1 = (w2, ys, Completed)"
      by (auto elim: generate_completed_lines)
    from completed_needs_done_record [OF g] none l show False by blast
  qed
next
  from assms(1) obtain w0 s0 where
    "map_of (chat_sessions w0) (sc_session_id sc) = Some s0"
    "w1 = add_user_message E req (sc_session_id sc) w0"
    by (rule chat_stream_returns)
  then show "\<exists>s. map_of (chat_sessions w1) (sc_session_id sc) = Some s \<and> messages s \<noteq> [] \<and>
      role (last (messages s)) = ''user'' \<and> content (last (messages s)) = JStr (message req)"
    by (simp add: lookup_add_user_message)
qed

theorem stream_without_completion_witness:
  "generate demo_env
     \<lparr>sc_session_id = ''s1'',
      sc_payload = \<lparr>pl_model = ''m1'', pl_messages = [(''user'', JStr ''hi'')], pl_stream = True\<rparr>\<rparr>
     demo_broken_stream
     (fst (chat_stream demo_env (demo_request (Some ''s1'') ''m1'') demo_world)) =
   (fst (chat_stream demo_env (demo_request (Some ''s1'') ''m1'') demo_world),
    [ContentChunk ''he'' ''s1'', ContentChunk ''x'' ''s1''], Raised RequestError) \<and>
   map_of (chat_sessions (fst (chat_stream demo_env (demo_request (Some ''s1'') ''m1'') demo_world))) ''s1'' =
     Some \<lparr>model = ''m1'',
           messages = [\<lparr>role = ''user'', content = JStr ''hi'', timestamp = 100\<rparr>],
           created_at = 1, last_updated = 2\<rparr>"
proof -
  let ?sc = "\<lparr>sc_session_id = ''s1'',
      sc_payload = \<lparr>pl_model = ''m1'', pl_messages = [(''user'', JStr ''hi'')], pl_stream = True\<rparr>\<rparr>"
  let ?w1 = "\<lparr>chat_sessions =
     [(''s1'', \<lparr>model = ''m1'',
          messages = [\<lparr>role = ''user'', content = JStr ''hi'', timestamp = 100\<rparr>],
          created_at = 1, last_updated = 2\<rparr>),
      (''s2'', \<lparr>model = ''m1'', messages = [], created_at = 3, last_updated = 7\<rparr>)],
     clock_reads = 1, uuid_draws = 0\<rparr>"
  have a: "chat_stream demo_env (demo_request (Some ''s1'') ''m1'') demo_world = (?w1, Inr ?sc)"
    by (simp add: endpoint_defs demo_defs)
  have b: "generate demo_env ?sc demo_broken_stream ?w1 =
      (?w1, [ContentChunk ''he'' ''s1'', ContentChunk ''x'' ''s1''], Raised RequestError)"
    by (simp add: endpoint_defs demo_defs)
  from stream_without_completion_commits_nothing [OF a b] a b show ?thesis
    by simp
qed

lemma generate_lines:
  "ollama (sc_payload sc) = StreamLines lines tail \<Longrightarrow>
     generate E sc ollama w = generate_loop E (sc_session_id sc) lines tail [] w"
  by (simp add: generate_def)

text \<open>
  C4. In a streaming turn over the lines the backend delivers: the lines that are empty
  or do not decode can be left out without any change of the outcome; a line that carries
  a true completion flag ends the generator, so nothing after it is read; the generator
  ends with the final marker only if some line carries the flag, and then the chunks are
  content chunks followed by exactly one final marker; and the assistant message
  appended at completion holds the concatenation of the fragments yielded, in the order
  of the yields.
\<close>

theorem streamed_reply_is_concatenation:
  assumes "ollama (sc_payload sc) = StreamLines lines tail"
    and "generate E sc ollama w = (w', ys, e)"
  shows "generate E sc (\<lambda>p. StreamLines (filter (decodes E) lines) tail) w = (w', ys, e) \<and>
         (\<forall>pre line post tail'. lines = pre @ line # post \<longrightarrow> done_flag E line \<longrightarrow>
            generate E sc (\<lambda>p. StreamLines (pre @ [line]) tail') w = (w', ys, e)) \<and>
         (e = Completed \<longrightarrow>
            (\<exists>l \<in> set lines. done_flag E l) \<and>
            (\<exists>zs. ys = map (\<lambda>c. ContentChunk c (sc_session_id sc)) zs @ [DoneChunk (sc_session_id sc)]) \<and>
            w' = commit_assistant E (sc_session_id sc) (JStr (concat (fragments ys))) w \<and>
            (\<forall>s. map_of (chat_sessions w) (sc_session_id sc) = Some s \<longrightarrow>
               map_of (chat_sessions w') (sc_session_id sc) =
                 Some (s\<lparr>messages := messages s @
                            [\<lparr>role = ''assistant'', content = JStr (concat (fragments ys)),
                              timestamp = clock E (clock_reads w)\<rparr>],
                         last_updated := clock E (Suc (clock_reads w))\<rparr>))) \<and>
         (e \<noteq> Completed \<longrightarrow>
            (\<exists>zs. ys = map (\<lambda>c. ContentChunk c (sc_session_id sc)) zs) \<and> w' = w)"
proof -
  let ?sid = "sc_session_id sc"
  from assms have loop: "generate_loop E ?sid lines tail [] w = (w', ys, e)"
    by (simp add: generate_lines)
  have skip: "generate E sc (\<lambda>p. StreamLines (filter (decodes E) lines) tail) w = (w', ys, e)"
    using loop by (simp add: generate_def generate_loop_filter)
  have cut: "generate E sc (\<lambda>p. StreamLines (pre @ [line]) tail') w = (w', ys, e)"
    if "lines = pre @ line # post" "done_flag E line" for pre line post tail'
    using loop that done_record_cuts_stream [of E line ?sid pre post tail "[]" w tail']
    by (simp add: generate_def)
  from generate_loop_spec [OF loop] obtain zs where zs:
    "ys = map (\<lambda>c. ContentChunk c ?sid) zs @ (if e = Completed then [DoneChunk ?sid] else [])"
    "w' = (if e = Completed then commit_assistant E ?sid (JStr ([] @ concat zs)) w else w)"
    by blast
  have completed: "(\<exists>l \<in> set lines. done_flag E l) \<and>
        (\<exists>zs. ys = map (\<lambda>c. ContentChunk c ?sid) zs @ [DoneChunk ?sid]) \<and>
        w' = commit_assistant E ?sid (JStr (concat (fragments ys))) w \<and>
        (\<forall>s. map_of (chat_sessions w) ?sid = Some s \<longrightarrow>
           map_of (chat_sessions w') ?sid =
             Some (s\<lparr>messages := messages s @
                        [\<lparr>role = ''assistant'', content = JStr (concat (fragments ys)),
                          timestamp = clock E (clock_reads w)\<rparr>],
                     last_updated := clock E (Suc (clock_reads w))\<rparr>))"
    if c: "e = Completed"
  proof -
    from loop c have "\<exists>l \<in> set lines. done_flag E l"
      using completed_needs_done_record by blast
    moreover from zs c have "\<exists>zs. ys = map (\<lambda>c. ContentChunk c ?sid) zs @ [DoneChunk ?sid]"
      by auto
    moreover from zs c have w': "w' = commit_assistant E ?sid (JStr (concat (fragments ys))) w"
      by simp
    moreover have "map_of (chat_sessions w') ?sid =
             Some (s\<lparr>messages := messages s @
                        [\<lparr>role = ''assistant'', content = JStr (concat (fragments ys)),
                          timestamp = clock E (clock_reads w)\<rparr>],
                     last_updated := clock E (Suc (clock_reads w))\<rparr>)"
      if "map_of (chat_sessions w) ?sid = Some s" for s
      using that unfolding w' by (simp add: lookup_commit_assistant)
    ultimately show ?thesis by blast
  qed
  have other: "(\<exists>zs. ys = map (\<lambda>c. ContentChunk c ?sid) zs) \<and> w' = w" if "e \<noteq> Completed"
    using zs that by auto
  from skip cut completed other show ?thesis by blast
qed

theorem streamed_reply_witness:
  "generate demo_env
     \<lparr>sc_session_id = ''s1'',
      sc_payload = \<lparr>pl_model = ''m1'', pl_messages = [(''user'', JStr ''hi'')], pl_stream = True\<rparr>\<rparr>
     (\<lambda>p. StreamLines [''he'', ''llo'', ''x''] EndOfStream)
     (fst (chat_stream demo_env (demo_request (Some ''s1'') ''m1'') demo_world)) =
   (fst (stream_turn demo_env (demo_request (Some ''s1'') ''m1'') demo_stream demo_world),
    [ContentChunk ''he'' ''s1'', ContentChunk ''llo'' ''s1'', DoneChunk ''s1''], Completed) \<and>
   generate demo_env
     \<lparr>sc_session_id = ''s1'',
      sc_payload = \<lparr>pl_model = ''m1'', pl_messages = [(''user'', JStr ''hi'')], pl_stream = True\<rparr>\<rparr>
     (\<lambda>p. StreamLines [''he'', ''?'', ''llo''] ReadFails)
     (fst (chat_stream demo_env (demo_request (Some ''s1'') ''m1'') demo_world)) =
   (fst (stream_turn demo_env (demo_request (Some ''s1'') ''m1'') demo_stream demo_world),
    [ContentChunk ''he'' ''s1'', ContentChunk ''llo'' ''s1'', DoneChunk ''s1''], Completed) \<and>
   map_of (chat_sessions
      (fst (stream_turn demo_env (demo_request (Some ''s1'') ''m1'') demo_stream demo_world))) ''s1'' =
     Some \<lparr>model = ''m1'',
           messages = [\<lparr>role = ''user'', content = JStr ''hi'', timestamp = 100\<rparr>,
                       \<lparr>role = ''assistant'', content = JStr ''hello'', timestamp = 101\<rparr>],
           created_at = 1, last_updated = 102\<rparr>"
proof -
  let ?sc = "\<lparr>sc_session_id = ''s1'',
      sc_payload = \<lparr>pl_model = ''m1'', pl_messages = [(''user'', JStr ''hi'')], pl_stream = True\<rparr>\<rparr>"
  let ?w1 = "\<lparr>chat_sessions =
     [(''s1'', \<lparr>model = ''m1'',
          messages = [\<lparr>role = ''user'', content = JStr ''hi'', timestamp = 100\<rparr>],
          created_at = 1, last_updated = 2\<rparr>),
      (''s2'', \<lparr>model = ''m1'', messages = [], created_at = 3, last_updated = 7\<rparr>)],
     clock_reads = 1, uuid_draws = 0\<rparr>"
  let ?w2 = "\<lparr>chat_sessions =
     [(''s1'', \<lparr>model = ''m1'',
          messages = [\<lparr>role = ''user'', content = JStr ''hi'', timestamp = 100\<rparr>,
                      \<lparr>role = ''assistant'', content = JStr ''hello'', timestamp = 101\<rparr>],
          created_at = 1, last_updated = 102\<rparr>),
      (''s2'', \<lparr>model = ''m1'', messages = [], created_at = 3, last_updated = 7\<rparr>)],
     clock_reads = 3, uuid_draws = 0\<rparr>"
  let ?ys = "[ContentChunk ''he'' ''s1'', ContentChunk ''llo'' ''s1'', DoneChunk ''s1'']"
  have a: "chat_stream demo_env (demo_request (Some ''s1'') ''m1'') demo_world = (?w1, Inr ?sc)"
    by (simp add: endpoint_defs demo_defs)
  have t: "stream_turn demo_env (demo_request (Some ''s1'') ''m1'') demo_stream demo_world =
      (?w2, Inr (?ys, Completed))"
    by (simp add: endpoint_defs demo_defs)
  have l: "demo_stream (sc_payload ?sc) = StreamLines [''he'', ''?'', ''llo'', ''x''] EndOfStream"
    by (simp add: demo_defs)
  have g: "generate demo_env ?sc demo_stream ?w1 = (?w2, ?ys, Completed)"
    by (simp add: endpoint_defs demo_defs)
  have f: "filter (decodes demo_env) [''he'', ''?'', ''llo'', ''x''] = [''he'', ''llo'', ''x'']"
    by (simp add: decodes_def demo_defs)
  have d: "done_flag demo_env ''llo''"
    by (simp add: done_flag_def demo_defs)
  have s: "[''he'', ''?'', ''llo'', ''x''] = [''he'', ''?''] @ ''llo'' # [''x'']"
    by simp
  note inst = streamed_reply_is_concatenation [OF l g]
  from inst [THEN conjunct1]
  have 1: "generate demo_env ?sc (\<lambda>p. StreamLines [''he'', ''llo'', ''x''] EndOfStream) ?w1 =
      (?w2, ?ys, Completed)"
    unfolding f .
  from inst [THEN conjunct2, THEN conjunct1, rule_format, OF s d]
  have 2: "generate demo_env ?sc (\<lambda>p. StreamLines [''he'', ''?'', ''llo''] ReadFails) ?w1 =
      (?w2, ?ys, Completed)"
    by simp
  have "map_of (chat_sessions ?w1) (sc_session_id ?sc) =
      Some \<lparr>model = ''m1'',
          messages = [\<lparr>role = ''user'', content = JStr ''hi'', timestamp = 100\<rparr>],
          created_at = 1, last_updated = 2\<rparr>"
    by simp
  from inst [THEN conjunct2, THEN conjunct2, THEN conjunct1, rule_format, OF refl,
      THEN conjunct2, THEN conjunct2, THEN conjunct2, rule_format, OF this]
  have 3: "map_of (chat_sessions ?w2) ''s1'' =
     Some \<lparr>model = ''m1'',
           messages = [\<lparr>role = ''user'', content = JStr ''hi'', timestamp = 100\<rparr>,
                       \<lparr>role = ''assistant'', content = JStr ''hello'', timestamp = 101\<rparr>],
           created_at = 1, last_updated = 102\<rparr>"
    by (simp add: demo_defs)
  from 1 2 3 show ?thesis unfolding a t by simp
qed

section \<open>The two chat endpoints, phase by phase\<close>

lemma resolve_session_id_given:
  "session_id req = Some sid \<Longrightarrow> sid \<noteq> [] \<Longrightarrow> resolve_session_id E req w = (sid, w)"
  by (simp add: resolve_session_id_def)

lemma resolve_session_id_created:
  "session_id req = None \<or> session_id req = Some [] \<Longrightarrow>
     resolve_session_id E req w = create_session E (req_model req) w"
  by (auto simp: resolve_session_id_def)

lemma resolve_session_id_cases [case_names given created]:
  obtains sid where "session_id req = Some sid" "sid \<noteq> []" "resolve_session_id E req w = (sid, w)"
  | "session_id req = None \<or> session_id req = Some []"
    "resolve_session_id E req w = create_session E (req_model req) w"
  by (cases "session_id req") (auto simp: resolve_session_id_def)

lemma chat_with_model_request_eq:
  "chat_with_model_request E req w =
     (case map_of (chat_sessions (snd (resolve_session_id E req w))) (fst (resolve_session_id E req w)) of
        None \<Rightarrow> (snd (resolve_session_id E req w),
                 Inl (HTTPException 404 (Detail ''Session not found'')))
      | Some s \<Rightarrow>
          if model s \<noteq> req_model req
          then (snd (resolve_session_id E req w),
                Inl (HTTPException 400 (Detail ''Model mismatch with session'')))
          else (add_user_message E req (fst (resolve_session_id E req w))
                  (snd (resolve_session_id E req w)),
                Inr (fst (resolve_session_id E req w),
                     \<lparr>pl_model = req_model req,
                      pl_messages =
                        prepare_messages req (fst (resolve_session_id E req w))
                          (add_user_message E req (fst (resolve_session_id E req w))
                             (snd (resolve_session_id E req w))),
                      pl_stream = False\<rparr>)))"
  by (simp add: chat_with_model_request_def Let_def split_beta split: option.split)

lemma chat_stream_eq:
  "chat_stream E req w =
     (case map_of (chat_sessions (snd (resolve_session_id E req w))) (fst (resolve_session_id E req w)) of
        None \<Rightarrow> (snd (resolve_session_id E req w),
                 Inl (HTTPException 500
                        (StreamingError (HTTPException 404 (Detail ''Session not found'')))))
      | Some s \<Rightarrow>
          (add_user_message E req (fst (resolve_session_id E req w))
             (snd (resolve_session_id E req w)),
           Inr \<lparr>sc_session_id = fst (resolve_session_id E req w),
                sc_payload =
                  \<lparr>pl_model = req_model req,
                   pl_messages =
                     prepare_messages req (fst (resolve_session_id E req w))
                       (add_user_message E req (fst (resolve_session_id E req w))
                          (snd (resolve_session_id E req w))),
                   pl_stream = True\<rparr>\<rparr>))"
  by (simp add: chat_stream_def chat_stream_try_def Let_def split_beta split: option.split)

lemma chat_with_model_reply_eq:
  "chat_with_model_reply E req sid out w =
     (case assistant_content E out of
        Inl e \<Rightarrow> (w, Inl e)
      | Inr c \<Rightarrow>
          (snd (now E (commit_assistant E sid c w)),
           case c of
             JStr txt \<Rightarrow>
               Inr \<lparr>response = txt, resp_session_id = sid, resp_model = req_model req,
                    resp_timestamp = clock E (Suc (Suc (clock_reads w)))\<rparr>
           | _ \<Rightarrow> Inl ValidationError))"
  by (simp add: chat_with_model_reply_def Let_def split_beta split: sum.split json.split)

lemma chat_with_model_request_returns:
  assumes "chat_with_model_request E req w = (w1, Inr (sid, pl))"
  obtains w0 s0 where
    "resolve_session_id E req w = (sid, w0)"
    "map_of (chat_sessions w0) sid = Some s0"
    "model s0 = req_model req"
    "w1 = add_user_message E req sid w0"
    "pl = \<lparr>pl_model = req_model req, pl_messages = prepare_messages req sid w1, pl_stream = False\<rparr>"
proof -
  obtain sid' w0 where r: "resolve_session_id E req w = (sid', w0)"
    by (cases "resolve_session_id E req w") auto
  from assms r obtain s0 where "map_of (chat_sessions w0) sid' = Some s0"
    "model s0 = req_model req" "sid = sid'" "w1 = add_user_message E req sid w0"
    "pl = \<lparr>pl_model = req_model req, pl_messages = prepare_messages req sid w1, pl_stream = False\<rparr>"
    by (auto simp: chat_with_model_request_eq split: option.splits if_splits)
  with r show ?thesis using that by blast
qed

lemma prepare_messages_eq:
  "prepare_messages req sid w =
     (case system_prompt req of
        None \<Rightarrow> []
      | Some p \<Rightarrow> if p \<noteq> [] then [(''system'', JStr p)] else []) @
     (case map_of (chat_sessions w) sid of
        None \<Rightarrow> []
      | Some s \<Rightarrow> map (\<lambda>msg. (role msg, content msg)) (messages s))"
  by (simp add: prepare_messages_def get_session_messages_def split: option.split)

lemma chat_with_model_eq:
  "chat_with_model E req ollama w =
     (case chat_with_model_request E req w of
        (w1, Inl e) \<Rightarrow> (w1, Inl (chat_except e))
      | (w1, Inr (sid, pl)) \<Rightarrow>
          (case chat_with_model_reply E req sid (ollama pl) w1 of
             (w2, Inl e) \<Rightarrow> (w2, Inl (chat_except e))
           | (w2, Inr r) \<Rightarrow> (w2, Inr r)))"
  by (simp add: chat_with_model_def chat_with_model_try_def split: prod.splits sum.splits)

lemma assistant_content_returns:
  "out = Returns body \<Longrightarrow> json_loads E body = Some data \<Longrightarrow>
   py_getitem data ''message'' = Inr m \<Longrightarrow> py_getitem m ''content'' = Inr c \<Longrightarrow>
     assistant_content E out = Inr c"
  by (simp add: assistant_content_def)

text \<open>
  C8. A blocking chat request without a session id, answered by the backend with a body
  that decodes to a record whose \<^verbatim>\<open>message.content\<close> is the string \<open>c\<close>: the endpoint
  returns \<open>c\<close>, the identifier just generated and the requested model, and the session
  stored under that identifier then holds exactly the user message and the assistant
  message with content \<open>c\<close>, in this order.
\<close>

theorem chat_without_session_id:
  assumes "session_id req = None"
    and "ollama \<lparr>pl_model = req_model req,
                 pl_messages =
                   (case system_prompt req of
                      None \<Rightarrow> []
                    | Some p \<Rightarrow> if p \<noteq> [] then [(''system'', JStr p)] else []) @
                   [(''user'', JStr (message req))],
                 pl_stream = False\<rparr> = Returns body"
    and "json_loads E body = Some data"
    and "py_getitem data ''message'' = Inr m"
    and "py_getitem m ''content'' = Inr (JStr c)"
  shows "snd (chat_with_model E req ollama w) =
           Inr \<lparr>response = c, resp_session_id = uuid4 E (uuid_draws w),
                resp_model = req_model req, resp_timestamp = clock E (clock_reads w + 5)\<rparr> \<and>
         map_of (chat_sessions (fst (chat_with_model E req ollama w))) (uuid4 E (uuid_draws w)) =
           Some \<lparr>model = req_model req,
                 messages =
                   [\<lparr>role = ''user'', content = JStr (message req),
                     timestamp = clock E (clock_reads w + 2)\<rparr>,
                    \<lparr>role = ''assistant'', content = JStr c,
                     timestamp = clock E (clock_reads w + 3)\<rparr>],
                 created_at = clock E (clock_reads w),
                 last_updated = clock E (clock_reads w + 4)\<rparr>"
proof -
  let ?sid = "uuid4 E (uuid_draws w)"
  let ?w0 = "snd (create_session E (req_model req) w)"
  let ?w1 = "add_user_message E req ?sid ?w0"
  let ?pl = "\<lparr>pl_model = req_model req, pl_messages = prepare_messages req ?sid ?w1,
              pl_stream = False\<rparr>"
  from assms(1) have r: "resolve_session_id E req w = (?sid, ?w0)"
    by (simp add: resolve_session_id_created prod_eq_iff)
  have s0: "map_of (chat_sessions ?w0) ?sid =
      Some \<lparr>model = req_model req, messages = [], created_at = clock E (clock_reads w),
            last_updated = clock E (Suc (clock_reads w))\<rparr>"
    by (simp add: lookup_create_session)
  have s1: "map_of (chat_sessions ?w1) ?sid =
      Some \<lparr>model = req_model req,
            messages = [\<lparr>role = ''user'', content = JStr (message req),
                         timestamp = clock E (Suc (Suc (clock_reads w)))\<rparr>],
            created_at = clock E (clock_reads w),
            last_updated = clock E (Suc (clock_reads w))\<rparr>"
    by (simp add: lookup_add_user_message s0)
  have request: "chat_with_model_request E req w = (?w1, Inr (?sid, ?pl))"
    by (simp add: chat_with_model_request_eq r s0)
  have "ollama ?pl = Returns body"
    using assms(2) by (simp add: prepare_messages_eq s1)
  from assistant_content_returns [OF this assms(3-5)]
  have reply: "chat_with_model_reply E req ?sid (ollama ?pl) ?w1 =
      (snd (now E (commit_assistant E ?sid (JStr c) ?w1)),
       Inr \<lparr>response = c, resp_session_id = ?sid, resp_model = req_model req,
            resp_timestamp = clock E (Suc (Suc (clock_reads ?w1)))\<rparr>)"
    by (simp add: chat_with_model_reply_eq)
  have turn: "chat_with_model E req ollama w =
      (snd (now E (commit_assistant E ?sid (JStr c) ?w1)),
       Inr \<lparr>response = c, resp_session_id = ?sid, resp_model = req_model req,
            resp_timestamp = clock E (Suc (Suc (clock_reads ?w1)))\<rparr>)"
    by (simp add: chat_with_model_eq request reply)
  show ?thesis
    by (simp add: turn lookup_commit_assistant s1 eval_nat_numeral)
qed

theorem chat_without_session_id_witness:
  "snd (chat_with_model demo_env (demo_request None ''m1'') demo_ollama empty_world) =
     Inr \<lparr>response = ''hello'', resp_session_id = ''u'', resp_model = ''m1'',
          resp_timestamp = 105\<rparr> \<and>
   map_of (chat_sessions
             (fst (chat_with_model demo_env (demo_request None ''m1'') demo_ollama empty_world)))
     ''u'' =
     Some \<lparr>model = ''m1'',
           messages =
             [\<lparr>role = ''user'', content = JStr ''hi'', timestamp = 102\<rparr>,
              \<lparr>role = ''assistant'', content = JStr ''hello'', timestamp = 103\<rparr>],
           created_at = 100, last_updated = 104\<rparr>"
proof -
  let ?req = "demo_request None ''m1''"
  have 1: "session_id ?req = None"
    by (simp add: demo_defs)
  have 2: "demo_ollama \<lparr>pl_model = req_model ?req,
                 pl_messages =
                   (case system_prompt ?req of
                      None \<Rightarrow> []
                    | Some p \<Rightarrow> if p \<noteq> [] then [(''system'', JStr p)] else []) @
                   [(''user'', JStr (message ?req))],
                 pl_stream = False\<rparr> = Returns ''hello''"
    by (simp add: demo_defs)
  have 3: "json_loads demo_env ''hello'' = Some (JObj [(''message'', JObj [(''content'', JStr ''hello'')])])"
    by (simp add: demo_defs)
  have 4: "py_getitem (JObj [(''message'', JObj [(''content'', JStr ''hello'')])]) ''message'' =
      Inr (JObj [(''content'', JStr ''hello'')])"
    by simp
  have 5: "py_getitem (JObj [(''content'', JStr ''hello'')]) ''content'' = Inr (JStr ''hello'')"
    by simp
  from chat_without_session_id
    [where req = ?req and ollama = demo_ollama and E = demo_env and w = empty_world, OF 1 2 3 4 5]
  show ?thesis
    by (simp add: demo_env_def empty_world_def demo_request_def)
qed

lemma py_getitem_no_http: "py_getitem x k \<noteq> Inl (HTTPException code d)"
  by (cases x) (auto split: option.splits)

lemma assistant_content_no_http: "assistant_content E out \<noteq> Inl (HTTPException code d)"
  by (auto simp: assistant_content_def py_getitem_no_http
      split: httpx_outcome.splits option.splits sum.splits)

lemma chat_except_wraps:
  "chat_except e = HTTPException 500 (ChatError e') \<Longrightarrow> e = e'"
  by (cases e) auto

text \<open>What a blocking turn leaves in the state, once the session is resolved and found.\<close>

lemma chat_with_model_found:
  assumes r: "resolve_session_id E req w = (sid, w0)"
    and s0: "map_of (chat_sessions w0) sid = Some s0"
    and m: "model s0 = req_model req"
  shows "chat_with_model E req ollama w =
     (case assistant_content E
             (ollama \<lparr>pl_model = req_model req,
                      pl_messages = prepare_messages req sid (add_user_message E req sid w0),
                      pl_stream = False\<rparr>) of
        Inl e \<Rightarrow> (add_user_message E req sid w0, Inl (chat_except e))
      | Inr c \<Rightarrow>
          (snd (now E (commit_assistant E sid c (add_user_message E req sid w0))),
           case c of
             JStr t \<Rightarrow>
               Inr \<lparr>response = t, resp_session_id = sid, resp_model = req_model req,
                    resp_timestamp = clock E (Suc (Suc (Suc (clock_reads w0))))\<rparr>
           | _ \<Rightarrow> Inl (HTTPException 500 (ChatError ValidationError))))"
  by (simp add: chat_with_model_eq chat_with_model_request_eq chat_with_model_reply_eq r s0 m
      split: sum.split json.split)

lemma chat_with_model_mismatch:
  assumes r: "resolve_session_id E req w = (sid, w0)"
    and s0: "map_of (chat_sessions w0) sid = Some s0"
    and m: "model s0 \<noteq> req_model req"
  shows "chat_with_model E req ollama w =
     (w0, Inl (HTTPException 500
                 (ChatError (HTTPException 400 (Detail ''Model mismatch with session'')))))"
  by (simp add: chat_with_model_eq chat_with_model_request_eq r s0 m)

lemma chat_with_model_not_found:
  assumes r: "resolve_session_id E req w = (sid, w0)"
    and s0: "map_of (chat_sessions w0) sid = None"
  shows "chat_with_model E req ollama w =
     (w0, Inl (HTTPException 500 (ChatError (HTTPException 404 (Detail ''Session not found'')))))"
  by (simp add: chat_with_model_eq chat_with_model_request_eq r s0)

lemma chat_stream_found:
  assumes r: "resolve_session_id E req w = (sid, w0)"
    and s0: "map_of (chat_sessions w0) sid = Some s0"
  shows "chat_stream E req w =
     (add_user_message E req sid w0,
      Inr \<lparr>sc_session_id = sid,
           sc_payload = \<lparr>pl_model = req_model req,
                          pl_messages = prepare_messages req sid (add_user_message E req sid w0),
                          pl_stream = True\<rparr>\<rparr>)"
  by (simp add: chat_stream_eq r s0)

lemma chat_stream_not_found:
  assumes r: "resolve_session_id E req w = (sid, w0)"
    and s0: "map_of (chat_sessions w0) sid = None"
  shows "chat_stream E req w =
     (w0, Inl (HTTPException 500
                 (StreamingError (HTTPException 404 (Detail ''Session not found'')))))"
  by (simp add: chat_stream_eq r s0)

lemma generate_world:
  "fst (generate E sc ollama w) = w \<and> snd (snd (generate E sc ollama w)) \<noteq> Completed \<or>
   fst (generate E sc ollama w) =
     commit_assistant E (sc_session_id sc)
       (JStr (concat (fragments (fst (snd (generate E sc ollama w)))))) w \<and>
   snd (snd (generate E sc ollama w)) = Completed"
proof -
  obtain w' ys e where g: "generate E sc ollama w = (w', ys, e)"
    by (cases "generate E sc ollama w") auto
  show ?thesis
  proof (cases "e = Completed")
    case True
    with g obtain lines tail where
      "generate_loop E (sc_session_id sc) lines tail [] w = (w', ys, Completed)"
      by (auto elim: generate_completed_lines)
    from generate_loop_completed [OF this] g True show ?thesis by simp
  next
    case False
    with g generate_not_completed [OF g] show ?thesis by simp
  qed
qed

lemma stream_turn_found:
  assumes r: "resolve_session_id E req w = (sid, w0)"
    and s0: "map_of (chat_sessions w0) sid = Some s0"
  shows "stream_turn E req ollama w =
     (case generate E
             \<lparr>sc_session_id = sid,
              sc_payload = \<lparr>pl_model = req_model req,
                             pl_messages = prepare_messages req sid (add_user_message E req sid w0),
                             pl_stream = True\<rparr>\<rparr>
             ollama (add_user_message E req sid w0) of
        (w2, ys, e) \<Rightarrow> (w2, Inr (ys, e)))"
  by (simp add: stream_turn_def chat_stream_found [OF r s0] split_beta)

lemma stream_turn_not_found:
  assumes r: "resolve_session_id E req w = (sid, w0)"
    and s0: "map_of (chat_sessions w0) sid = None"
  shows "stream_turn E req ollama w =
     (w0, Inl (HTTPException 500
                 (StreamingError (HTTPException 404 (Detail ''Session not found'')))))"
  by (simp add: stream_turn_def chat_stream_not_found [OF r s0])

text \<open>
  C10. A chat or streaming request whose session id is the empty string is served as the
  same request without a session id: the outcome and the state are equal, a session is
  created under the generated identifier and bound to the requested model, and the
  request does not fail for an unknown session.
\<close>

theorem empty_session_id_creates_session:
  assumes "session_id req = Some []"
  shows "chat_with_model E req ollama w = chat_with_model E (req\<lparr>session_id := None\<rparr>) ollama w \<and>
         chat_stream E req w = chat_stream E (req\<lparr>session_id := None\<rparr>) w \<and>
         stream_turn E req backend w = stream_turn E (req\<lparr>session_id := None\<rparr>) backend w \<and>
         (\<exists>sc. snd (chat_stream E req w) = Inr sc \<and> sc_session_id sc = uuid4 E (uuid_draws w)) \<and>
         (\<exists>s. map_of (chat_sessions (fst (chat_stream E req w))) (uuid4 E (uuid_draws w)) = Some s \<and>
              model s = req_model req) \<and>
         (\<exists>s. map_of (chat_sessions (fst (chat_with_model E req ollama w))) (uuid4 E (uuid_draws w)) =
                Some s \<and> model s = req_model req) \<and>
         snd (chat_with_model E req ollama w) \<noteq>
           Inl (HTTPException 500 (ChatError (HTTPException 404 (Detail ''Session not found''))))"
proof -
  let ?req' = "req\<lparr>session_id := None\<rparr>"
  let ?sid = "uuid4 E (uuid_draws w)"
  let ?w0 = "snd (create_session E (req_model req) w)"
  let ?s0 = "\<lparr>model = req_model req, messages = [], created_at = clock E (clock_reads w),
             last_updated = clock E (Suc (clock_reads w))\<rparr>"
  from assms have r: "resolve_session_id E req w = (?sid, ?w0)"
    by (simp add: resolve_session_id_created prod_eq_iff)
  have r': "resolve_session_id E ?req' w = (?sid, ?w0)"
    by (simp add: resolve_session_id_created prod_eq_iff)
  have s0: "map_of (chat_sessions ?w0) ?sid = Some ?s0"
    by (simp add: lookup_create_session)
  have m: "model ?s0 = req_model req" "model ?s0 = req_model ?req'"
    by simp_all
  have same: "add_user_message E ?req' = add_user_message E req"
    "prepare_messages ?req' = prepare_messages req"
    by (simp_all add: add_user_message_def prepare_messages_def fun_eq_iff)
  have 1: "chat_with_model E req ollama w = chat_with_model E ?req' ollama w"
    unfolding chat_with_model_found [OF r s0 m(1)] chat_with_model_found [OF r' s0 m(2)] same
    by (simp split: sum.split json.split)
  have 2: "chat_stream E req w = chat_stream E ?req' w"
    unfolding chat_stream_found [OF r s0] chat_stream_found [OF r' s0] same by simp
  then have 3: "stream_turn E req backend w = stream_turn E ?req' backend w"
    by (simp add: stream_turn_def)
  have 4: "\<exists>sc. snd (chat_stream E req w) = Inr sc \<and> sc_session_id sc = ?sid"
    by (simp add: chat_stream_found [OF r s0])
  have 5: "\<exists>s. map_of (chat_sessions (fst (chat_stream E req w))) ?sid = Some s \<and>
      model s = req_model req"
    by (simp add: chat_stream_found [OF r s0] lookup_add_user_message s0)
  have 6: "\<exists>s. map_of (chat_sessions (fst (chat_with_model E req ollama w))) ?sid = Some s \<and>
      model s = req_model req"
    by (simp add: chat_with_model_found [OF r s0 m(1)] lookup_add_user_message
        lookup_commit_assistant s0 split: sum.split)
  have 7: "snd (chat_with_model E req ollama w) \<noteq>
      Inl (HTTPException 500 (ChatError (HTTPException 404 (Detail ''Session not found''))))"
    by (auto simp: chat_with_model_found [OF r s0 m(1)] assistant_content_no_http
        split: sum.splits json.splits dest!: chat_except_wraps)
  from 1 2 3 4 5 6 7 show ?thesis by blast
qed

theorem empty_session_id_witness:
  "chat_with_model demo_env (demo_request (Some []) ''m1'') demo_ollama empty_world =
     chat_with_model demo_env (demo_request None ''m1'') demo_ollama empty_world \<and>
   stream_turn demo_env (demo_request (Some []) ''m1'') demo_stream empty_world =
     stream_turn demo_env (demo_request None ''m1'') demo_stream empty_world \<and>
   (\<exists>s. map_of (chat_sessions (fst (chat_stream demo_env (demo_request (Some []) ''m1'') empty_world)))
          ''u'' = Some s \<and> model s = ''m1'')"
proof -
  have 1: "session_id (demo_request (Some []) ''m1'') = Some []"
    by (simp add: demo_request_def)
  have 2: "(demo_request (Some []) ''m1'')\<lparr>session_id := None\<rparr> = demo_request None ''m1''"
    by (simp add: demo_request_def)
  have 3: "uuid4 demo_env (uuid_draws empty_world) = ''u''"
    by (simp add: demo_env_def empty_world_def)
  note inst = empty_session_id_creates_session
    [where req = "demo_request (Some []) ''m1''" and E = demo_env and w = empty_world
       and ollama = demo_ollama and backend = demo_stream, OF 1, unfolded 2 3]
  have 4: "req_model (demo_request (Some []) ''m1'') = ''m1''"
    by (simp add: demo_request_def)
  from inst [unfolded 4] show ?thesis by blast
qed

lemma system_prompt_irrelevant:
  "resolve_session_id E (req\<lparr>system_prompt := p\<rparr>) w = resolve_session_id E req w"
  "add_user_message E (req\<lparr>system_prompt := p\<rparr>) = add_user_message E req"
  "chat_with_model_reply E (req\<lparr>system_prompt := p\<rparr>) = chat_with_model_reply E req"
  by (simp_all add: resolve_session_id_def add_user_message_def chat_with_model_reply_def fun_eq_iff
      Let_def split_beta split: option.split sum.split json.split)

text \<open>
  C5. The message list sent to the backend, in both chat endpoints, is the stored history
  of the session (which then ends with the user message of the request) mapped in order
  to pairs of role and content, with one system-role pair holding the system prompt in
  front exactly when the prompt is supplied and not empty. The stored history receives
  only the user message; with a backend whose answer does not depend on what it is sent,
  the whole turn is the same for every system prompt.
\<close>

theorem projected_messages:
  assumes "resolve_session_id E req w = (sid, w0)"
    and "map_of (chat_sessions w0) sid = Some s0"
  shows "let stored = messages s0 @
               [\<lparr>role = ''user'', content = JStr (message req),
                 timestamp = clock E (clock_reads w0)\<rparr>];
             sent = (case system_prompt req of
                       None \<Rightarrow> []
                     | Some p \<Rightarrow> if p \<noteq> [] then [(''system'', JStr p)] else []) @
                    map (\<lambda>msg. (role msg, content msg)) stored
         in (model s0 = req_model req \<longrightarrow>
               (\<exists>w1. chat_with_model_request E req w =
                       (w1, Inr (sid, \<lparr>pl_model = req_model req, pl_messages = sent,
                                       pl_stream = False\<rparr>)) \<and>
                     map_of (chat_sessions w1) sid = Some (s0\<lparr>messages := stored\<rparr>))) \<and>
            (\<exists>w1. chat_stream E req w =
                    (w1, Inr \<lparr>sc_session_id = sid,
                              sc_payload = \<lparr>pl_model = req_model req, pl_messages = sent,
                                             pl_stream = True\<rparr>\<rparr>) \<and>
                  map_of (chat_sessions w1) sid = Some (s0\<lparr>messages := stored\<rparr>)) \<and>
            chat_with_model E (req\<lparr>system_prompt := p'\<rparr>) (\<lambda>pl. out) w =
              chat_with_model E req (\<lambda>pl. out) w \<and>
            stream_turn E (req\<lparr>system_prompt := p'\<rparr>) (\<lambda>pl. sout) w =
              stream_turn E req (\<lambda>pl. sout) w"
proof -
  let ?u = "\<lparr>role = ''user'', content = JStr (message req), timestamp = clock E (clock_reads w0)\<rparr>"
  let ?w1 = "add_user_message E req sid w0"
  have s1: "map_of (chat_sessions ?w1) sid = Some (s0\<lparr>messages := messages s0 @ [?u]\<rparr>)"
    by (simp add: lookup_add_user_message assms(2))
  have sent: "prepare_messages req sid ?w1 =
      (case system_prompt req of
         None \<Rightarrow> []
       | Some p \<Rightarrow> if p \<noteq> [] then [(''system'', JStr p)] else []) @
      map (\<lambda>msg. (role msg, content msg)) (messages s0 @ [?u])"
    by (simp add: prepare_messages_eq s1)
  have blocking: "\<exists>w1. chat_with_model_request E req w =
        (w1, Inr (sid, \<lparr>pl_model = req_model req,
                        pl_messages = prepare_messages req sid ?w1, pl_stream = False\<rparr>)) \<and>
      map_of (chat_sessions w1) sid = Some (s0\<lparr>messages := messages s0 @ [?u]\<rparr>)"
    if "model s0 = req_model req"
    using that s1 by (simp add: chat_with_model_request_eq assms)
  have streaming: "\<exists>w1. chat_stream E req w =
        (w1, Inr \<lparr>sc_session_id = sid,
                  sc_payload = \<lparr>pl_model = req_model req,
                                 pl_messages = prepare_messages req sid ?w1,
                                 pl_stream = True\<rparr>\<rparr>) \<and>
      map_of (chat_sessions w1) sid = Some (s0\<lparr>messages := messages s0 @ [?u]\<rparr>)"
    using s1 by (simp add: chat_stream_found [OF assms])
  have same_chat: "chat_with_model E (req\<lparr>system_prompt := p'\<rparr>) (\<lambda>pl. out) w =
      chat_with_model E req (\<lambda>pl. out) w"
    by (simp add: chat_with_model_eq chat_with_model_request_eq system_prompt_irrelevant
        split: option.split)
  have same_stream: "stream_turn E (req\<lparr>system_prompt := p'\<rparr>) (\<lambda>pl. sout) w =
      stream_turn E req (\<lambda>pl. sout) w"
    by (simp add: stream_turn_def chat_stream_eq system_prompt_irrelevant generate_def
        split: option.split stream_outcome.split)
  from blocking streaming same_chat same_stream show ?thesis
    unfolding Let_def sent [symmetric] by blast
qed


theorem projected_messages_witness:
  "(\<exists>w1. chat_with_model_request demo_env
           \<lparr>message = ''hi'', req_model = ''m1'', session_id = Some ''s1'',
            system_prompt = Some ''brief''\<rparr> demo_world =
          (w1, Inr (''s1'', \<lparr>pl_model = ''m1'',
                            pl_messages = [(''system'', JStr ''brief''), (''user'', JStr ''hi'')],
                            pl_stream = False\<rparr>)) \<and>
         map_of (chat_sessions w1) ''s1'' =
           Some \<lparr>model = ''m1'',
                 messages = [\<lparr>role = ''user'', content = JStr ''hi'', timestamp = 100\<rparr>],
                 created_at = 1, last_updated = 2\<rparr>) \<and>
   (\<exists>w1. chat_stream demo_env
           \<lparr>message = ''hi'', req_model = ''m1'', session_id = Some ''s1'',
            system_prompt = Some ''brief''\<rparr> demo_world =
          (w1, Inr \<lparr>sc_session_id = ''s1'',
                    sc_payload =
                      \<lparr>pl_model = ''m1'',
                       pl_messages = [(''system'', JStr ''brief''), (''user'', JStr ''hi'')],
                       pl_stream = True\<rparr>\<rparr>) \<and>
         map_of (chat_sessions w1) ''s1'' =
           Some \<lparr>model = ''m1'',
                 messages = [\<lparr>role = ''user'', content = JStr ''hi'', timestamp = 100\<rparr>],
                 created_at = 1, last_updated = 2\<rparr>) \<and>
   chat_with_model demo_env
     \<lparr>message = ''hi'', req_model = ''m1'', session_id = Some ''s1'', system_prompt = None\<rparr>
     (\<lambda>pl. Returns ''hello'') demo_world =
   chat_with_model demo_env
     \<lparr>message = ''hi'', req_model = ''m1'', session_id = Some ''s1'',
      system_prompt = Some ''brief''\<rparr>
     (\<lambda>pl. Returns ''hello'') demo_world"
proof -
  let ?req = "\<lparr>message = ''hi'', req_model = ''m1'', session_id = Some ''s1'',
      system_prompt = Some ''brief''\<rparr>"
  let ?s0 = "\<lparr>model = ''m1'', messages = [], created_at = 1, last_updated = 2\<rparr>"
  have r: "resolve_session_id demo_env ?req demo_world = (''s1'', demo_world)"
    by (simp add: resolve_session_id_def)
  have s: "map_of (chat_sessions demo_world) ''s1'' = Some ?s0"
    by (simp add: demo_world_def)
  have c: "clock demo_env (clock_reads demo_world) = 100"
    by (simp add: demo_env_def demo_world_def)
  from projected_messages [OF r s, where p' = None and out = "Returns ''hello''", unfolded c]
  show ?thesis
    by (simp add: Let_def)
qed

text \<open>
  C6. For a chat turn, blocking or streaming, on the session the request resolves to:
  when the endpoint has appended the user message, \<^verbatim>\<open>last_updated\<close> still has its old
  value; after the turn the session has its old model and creation time, and either the
  assistant message follows the user message and \<^verbatim>\<open>last_updated\<close> is the clock reading
  taken right after the timestamp of the assistant message, or no assistant message was
  appended and \<^verbatim>\<open>last_updated\<close> has its old value. A blocking turn that returns a
  response, and a streaming turn that ends with the final marker, are of the first
  kind; a streaming turn that ends otherwise is of the second. Every other session is
  as it was when the session of the turn was resolved.
\<close>

theorem turn_timestamps:
  assumes "resolve_session_id E req w = (sid, w0)"
    and "map_of (chat_sessions w0) sid = Some s0"
  shows "let u = \<lparr>role = ''user'', content = JStr (message req),
                  timestamp = clock E (clock_reads w0)\<rparr>;
             t_commit = clock E (Suc (Suc (clock_reads w0)))
         in map_of (chat_sessions (fst (chat_stream E req w))) sid =
              Some (s0\<lparr>messages := messages s0 @ [u]\<rparr>) \<and>
            (model s0 = req_model req \<longrightarrow>
               map_of (chat_sessions (fst (chat_with_model_request E req w))) sid =
                 Some (s0\<lparr>messages := messages s0 @ [u]\<rparr>)) \<and>
            (\<exists>s'. map_of (chat_sessions (fst (chat_with_model E req ollama w))) sid = Some s' \<and>
                  model s' = model s0 \<and> created_at s' = created_at s0 \<and>
                  ((\<exists>c. messages s' = messages s0 @
                           [u, \<lparr>role = ''assistant'', content = c,
                                timestamp = clock E (Suc (clock_reads w0))\<rparr>]) \<and>
                     last_updated s' = t_commit \<or>
                   (messages s' = messages s0 @ [u] \<or> messages s' = messages s0) \<and>
                     last_updated s' = last_updated s0 \<and>
                     isl (snd (chat_with_model E req ollama w)))) \<and>
            (\<exists>w' ys e s'. stream_turn E req backend w = (w', Inr (ys, e)) \<and>
                  map_of (chat_sessions w') sid = Some s' \<and>
                  model s' = model s0 \<and> created_at s' = created_at s0 \<and>
                  (if e = Completed
                   then messages s' = messages s0 @
                          [u, \<lparr>role = ''assistant'', content = JStr (concat (fragments ys)),
                               timestamp = clock E (Suc (clock_reads w0))\<rparr>] \<and>
                        last_updated s' = t_commit
                   else messages s' = messages s0 @ [u] \<and>
                        last_updated s' = last_updated s0)) \<and>
            (\<forall>k. k \<noteq> sid \<longrightarrow>
               map_of (chat_sessions (fst (chat_with_model E req ollama w))) k =
                 map_of (chat_sessions w0) k \<and>
               map_of (chat_sessions (fst (stream_turn E req backend w))) k =
                 map_of (chat_sessions w0) k)"
proof -
  let ?u = "\<lparr>role = ''user'', content = JStr (message req), timestamp = clock E (clock_reads w0)\<rparr>"
  let ?w1 = "add_user_message E req sid w0"
  let ?s1 = "s0\<lparr>messages := messages s0 @ [?u]\<rparr>"
  let ?sc = "\<lparr>sc_session_id = sid,
              sc_payload = \<lparr>pl_model = req_model req,
                             pl_messages = prepare_messages req sid ?w1,
                             pl_stream = True\<rparr>\<rparr>"
  have s1: "map_of (chat_sessions ?w1) sid = Some ?s1"
    by (simp add: lookup_add_user_message assms(2))
  have other1: "map_of (chat_sessions ?w1) k = map_of (chat_sessions w0) k" if "k \<noteq> sid" for k
    using that by (simp add: lookup_add_user_message)
  have a: "map_of (chat_sessions (fst (chat_stream E req w))) sid = Some ?s1"
    by (simp add: chat_stream_found [OF assms] s1)
  have b: "map_of (chat_sessions (fst (chat_with_model_request E req w))) sid = Some ?s1"
    if "model s0 = req_model req"
    using that by (simp add: chat_with_model_request_eq assms s1)
  have c: "\<exists>s'. map_of (chat_sessions (fst (chat_with_model E req ollama w))) sid = Some s' \<and>
      model s' = model s0 \<and> created_at s' = created_at s0 \<and>
      ((\<exists>c. messages s' = messages s0 @
               [?u, \<lparr>role = ''assistant'', content = c,
                     timestamp = clock E (Suc (clock_reads w0))\<rparr>]) \<and>
         last_updated s' = clock E (Suc (Suc (clock_reads w0))) \<or>
       (messages s' = messages s0 @ [?u] \<or> messages s' = messages s0) \<and>
         last_updated s' = last_updated s0 \<and>
         isl (snd (chat_with_model E req ollama w)))"
  proof (cases "model s0 = req_model req")
    case False
    then show ?thesis
      by (simp add: chat_with_model_mismatch [OF assms] assms(2))
  next
    case True
    show ?thesis
      by (simp add: chat_with_model_found [OF assms True] s1 lookup_commit_assistant
          split: sum.split)
  qed
  have c': "map_of (chat_sessions (fst (chat_with_model E req ollama w))) k =
      map_of (chat_sessions w0) k" if "k \<noteq> sid" for k
  proof (cases "model s0 = req_model req")
    case False
    then show ?thesis
      by (simp add: chat_with_model_mismatch [OF assms])
  next
    case True
    show ?thesis using that
      by (simp add: chat_with_model_found [OF assms True] other1 lookup_commit_assistant
          split: sum.split)
  qed
  obtain w' ys e where g: "generate E ?sc backend ?w1 = (w', ys, e)"
    by (cases "generate E ?sc backend ?w1") auto
  then have turn: "stream_turn E req backend w = (w', Inr (ys, e))"
    by (simp add: stream_turn_found [OF assms])
  from generate_world [of E ?sc backend ?w1] g
  have w': "w' = (if e = Completed
                  then commit_assistant E sid (JStr (concat (fragments ys))) ?w1 else ?w1)"
    by auto
  have d: "\<exists>s'. map_of (chat_sessions w') sid = Some s' \<and>
      model s' = model s0 \<and> created_at s' = created_at s0 \<and>
      (if e = Completed
       then messages s' = messages s0 @
              [?u, \<lparr>role = ''assistant'', content = JStr (concat (fragments ys)),
                    timestamp = clock E (Suc (clock_reads w0))\<rparr>] \<and>
            last_updated s' = clock E (Suc (Suc (clock_reads w0)))
       else messages s' = messages s0 @ [?u] \<and> last_updated s' = last_updated s0)"
    by (simp add: w' s1 lookup_commit_assistant)
  have d': "map_of (chat_sessions (fst (stream_turn E req backend w))) k =
      map_of (chat_sessions w0) k" if "k \<noteq> sid" for k
    using that by (simp add: turn w' other1 lookup_commit_assistant)
  from a b c c' d d' turn show ?thesis
    unfolding Let_def by blast
qed

theorem turn_timestamps_witness:
  "map_of (chat_sessions (fst (chat_stream demo_env (demo_request (Some ''s1'') ''m1'') demo_world)))
     ''s1'' =
     Some \<lparr>model = ''m1'',
           messages = [\<lparr>role = ''user'', content = JStr ''hi'', timestamp = 100\<rparr>],
           created_at = 1, last_updated = 2\<rparr> \<and>
   map_of (chat_sessions
             (fst (chat_with_model_request demo_env (demo_request (Some ''s1'') ''m1'') demo_world)))
     ''s1'' =
     Some \<lparr>model = ''m1'',
           messages = [\<lparr>role = ''user'', content = JStr ''hi'', timestamp = 100\<rparr>],
           created_at = 1, last_updated = 2\<rparr> \<and>
   map_of (chat_sessions
             (fst (chat_with_model demo_env (demo_request (Some ''s1'') ''m1'') demo_ollama
                     demo_world)))
     ''s2'' =
     Some \<lparr>model = ''m1'', messages = [], created_at = 3, last_updated = 7\<rparr>"
proof -
  let ?req = "demo_request (Some ''s1'') ''m1''"
  let ?s0 = "\<lparr>model = ''m1'', messages = [], created_at = 1, last_updated = 2\<rparr>"
  have r: "resolve_session_id demo_env ?req demo_world = (''s1'', demo_world)"
    by (simp add: resolve_session_id_def demo_request_def)
  have s: "map_of (chat_sessions demo_world) ''s1'' = Some ?s0"
    by (simp add: demo_world_def)
  have c: "clock demo_env (clock_reads demo_world) = 100" "message ?req = ''hi''"
    "req_model ?req = ''m1''"
    by (simp_all add: demo_env_def demo_world_def demo_request_def)
  have o: "map_of (chat_sessions demo_world) ''s2'' =
      Some \<lparr>model = ''m1'', messages = [], created_at = 3, last_updated = 7\<rparr>"
    by (simp add: demo_world_def)
  note inst = turn_timestamps [OF r s, where ollama = demo_ollama and backend = demo_stream,
      unfolded Let_def c]
  from inst have 1: "map_of (chat_sessions (fst (chat_stream demo_env ?req demo_world))) ''s1'' =
      Some (?s0\<lparr>messages := messages ?s0 @
          [\<lparr>role = ''user'', content = JStr ''hi'', timestamp = 100\<rparr>]\<rparr>)"
    by blast
  from inst have 2: "map_of (chat_sessions (fst (chat_with_model_request demo_env ?req demo_world)))
      ''s1'' =
      Some (?s0\<lparr>messages := messages ?s0 @
          [\<lparr>role = ''user'', content = JStr ''hi'', timestamp = 100\<rparr>]\<rparr>)"
    by simp
  from inst have "\<forall>k. k \<noteq> ''s1'' \<longrightarrow>
      map_of (chat_sessions (fst (chat_with_model demo_env ?req demo_ollama demo_world))) k =
        map_of (chat_sessions demo_world) k \<and>
      map_of (chat_sessions (fst (stream_turn demo_env ?req demo_stream demo_world))) k =
        map_of (chat_sessions demo_world) k"
    by blast
  then have 3: "map_of (chat_sessions (fst (chat_with_model demo_env ?req demo_ollama demo_world)))
      ''s2'' = map_of (chat_sessions demo_world) ''s2''"
    by simp
  from 1 2 3 o show ?thesis by simp
qed

section \<open>Listing the sessions\<close>

lemma py_sorted_reverse_descending:
  "sorted_wrt (\<lambda>x y. f y \<le> f x) (py_sorted_reverse f xs)"
proof -
  have "sorted (map f (sort_key f (rev xs)))"
    by (rule sorted_sort_key)
  then have "sorted_wrt (\<lambda>x y. f x \<le> f y) (sort_key f (rev xs))"
    by (simp add: sorted_wrt_map)
  then show ?thesis
    by (simp add: py_sorted_reverse_def sorted_wrt_rev)
qed

lemma py_sorted_reverse_mset [simp]: "mset (py_sorted_reverse f xs) = mset xs"
  by (simp add: py_sorted_reverse_def)

lemma py_sorted_reverse_set [simp]: "set (py_sorted_reverse f xs) = set xs"
  by (simp add: py_sorted_reverse_def)

lemma py_sorted_reverse_length [simp]: "length (py_sorted_reverse f xs) = length xs"
  by (simp add: py_sorted_reverse_def)

lemma py_sorted_reverse_stable:
  "filter (\<lambda>x. f x = k) (py_sorted_reverse f xs) = filter (\<lambda>x. f x = k) xs"
proof -
  have "filter (\<lambda>x. f x = k) (rev (sort_key f (rev xs))) =
      rev (filter (\<lambda>x. f x = k) (sort_key f (rev xs)))"
    by (simp add: rev_filter)
  also have "\<dots> = rev (filter (\<lambda>x. f x = k) (rev xs))"
    by (simp only: sort_key_stable)
  also have "\<dots> = filter (\<lambda>x. f x = k) xs"
    by (simp add: rev_filter)
  finally show ?thesis
    by (simp add: py_sorted_reverse_def)
qed

lemma descending_positions:
  fixes f :: "'a \<Rightarrow> 'k::linorder"
  assumes "sorted_wrt (\<lambda>x y. f y \<le> f x) xs" and "i < length xs" and "j < length xs"
    and "f (xs ! j) < f (xs ! i)"
  shows "i < j"
proof (rule ccontr)
  assume "\<not> i < j"
  with assms(4) have "j < i" by (cases "i = j") auto
  with assms(1,2) have "f (xs ! i) \<le> f (xs ! j)"
    by (simp add: sorted_wrt_iff_nth_less)
  with assms(4) show False by simp
qed

text \<open>
  C7. In the list of sessions, a summary with a later \<^verbatim>\<open>last_updated\<close> stands before
  every summary with an earlier one, so of two sessions the more recently updated comes
  first; the list holds one summary per stored entry; summaries with equal
  \<^verbatim>\<open>last_updated\<close> stand in the order of the dict; and the list is determined by
  \<^verbatim>\<open>chat_sessions\<close> alone, which listing leaves as it is.
\<close>

theorem list_sessions_order:
  "let xs = list_sessions w
   in (\<forall>i j. i < length xs \<and> j < length xs \<and>
              info_last_updated (xs ! j) < info_last_updated (xs ! i) \<longrightarrow> i < j) \<and>
      (\<forall>a \<in> set (chat_sessions w). \<forall>b \<in> set (chat_sessions w).
         last_updated (snd b) < last_updated (snd a) \<longrightarrow>
           (\<exists>i j. i < j \<and> j < length xs \<and>
                  xs ! i = session_summary a \<and> xs ! j = session_summary b)) \<and>
      mset xs = mset (map session_summary (chat_sessions w)) \<and>
      (\<forall>t. filter (\<lambda>x. info_last_updated x = t) xs =
           filter (\<lambda>x. info_last_updated x = t) (map session_summary (chat_sessions w))) \<and>
      (\<forall>w'. chat_sessions w' = chat_sessions w \<longrightarrow> list_sessions w' = xs) \<and>
      serve E w ListSessions = w"
proof -
  let ?xs = "list_sessions w"
  have desc: "sorted_wrt (\<lambda>x y. info_last_updated y \<le> info_last_updated x) ?xs"
    by (simp add: list_sessions_def py_sorted_reverse_descending)
  have order: "i < j" if "i < length ?xs" "j < length ?xs"
    "info_last_updated (?xs ! j) < info_last_updated (?xs ! i)" for i j
    using desc that by (rule descending_positions)
  have elems: "set ?xs = session_summary ` set (chat_sessions w)"
    by (simp add: list_sessions_def)
  have pairs: "\<exists>i j. i < j \<and> j < length ?xs \<and>
      ?xs ! i = session_summary a \<and> ?xs ! j = session_summary b"
    if "a \<in> set (chat_sessions w)" "b \<in> set (chat_sessions w)"
      "last_updated (snd b) < last_updated (snd a)" for a b
  proof -
    from that(1) elems have "session_summary a \<in> set ?xs" by blast
    then obtain i where i: "i < length ?xs" "?xs ! i = session_summary a"
      unfolding in_set_conv_nth by blast
    from that(2) elems have "session_summary b \<in> set ?xs" by blast
    then obtain j where j: "j < length ?xs" "?xs ! j = session_summary b"
      unfolding in_set_conv_nth by blast
    from that(3) i j have "info_last_updated (?xs ! j) < info_last_updated (?xs ! i)"
      by (simp add: session_summary_def)
    with i j have "i < j" using order by blast
    with i j show ?thesis by blast
  qed
  have perm: "mset ?xs = mset (map session_summary (chat_sessions w))"
    by (simp add: list_sessions_def)
  have stable: "filter (\<lambda>x. info_last_updated x = t) ?xs =
      filter (\<lambda>x. info_last_updated x = t) (map session_summary (chat_sessions w))" for t
    by (simp add: list_sessions_def py_sorted_reverse_stable)
  have same: "list_sessions w' = ?xs" if "chat_sessions w' = chat_sessions w" for w'
    using that by (simp add: list_sessions_def)
  have untouched: "serve E w ListSessions = w"
    by simp
  show ?thesis
    unfolding Let_def
  proof (intro conjI allI impI ballI)
    fix i j
    assume "i < length ?xs \<and> j < length ?xs \<and>
      info_last_updated (?xs ! j) < info_last_updated (?xs ! i)"
    then show "i < j" using order by blast
  next
    fix a b
    assume "a \<in> set (chat_sessions w)" "b \<in> set (chat_sessions w)"
      "last_updated (snd b) < last_updated (snd a)"
    then show "\<exists>i j. i < j \<and> j < length ?xs \<and>
      ?xs ! i = session_summary a \<and> ?xs ! j = session_summary b"
      by (rule pairs)
  next
    show "mset ?xs = mset (map session_summary (chat_sessions w))" by (rule perm)
  next
    fix t
    show "filter (\<lambda>x. info_last_updated x = t) ?xs =
      filter (\<lambda>x. info_last_updated x = t) (map session_summary (chat_sessions w))"
      by (rule stable)
  next
    fix w' :: world
    assume "chat_sessions w' = chat_sessions w"
    then show "list_sessions w' = ?xs" by (rule same)
  next
    show "serve E w ListSessions = w" by (rule untouched)
  qed
qed

theorem list_sessions_order_witness:
  "list_sessions demo_world ! 0 =
     \<lparr>info_session_id = ''s2'', info_model = ''m1'', info_created_at = 3,
      info_last_updated = 7, message_count = 0\<rparr> \<and>
   list_sessions demo_world ! 1 =
     \<lparr>info_session_id = ''s1'', info_model = ''m1'', info_created_at = 1,
      info_last_updated = 2, message_count = 0\<rparr> \<and>
   (0::nat) < 1 \<and>
   list_sessions (demo_world\<lparr>clock_reads := 5\<rparr>) = list_sessions demo_world"
proof -
  have e: "list_sessions demo_world =
      [\<lparr>info_session_id = ''s2'', info_model = ''m1'', info_created_at = 3,
        info_last_updated = 7, message_count = 0\<rparr>,
       \<lparr>info_session_id = ''s1'', info_model = ''m1'', info_created_at = 1,
        info_last_updated = 2, message_count = 0\<rparr>]"
    by (simp add: list_sessions_def py_sorted_reverse_def session_summary_def demo_world_def)
  note inst = list_sessions_order [of demo_world demo_env, unfolded Let_def]
  have l: "0 < length (list_sessions demo_world) \<and> 1 < length (list_sessions demo_world) \<and>
      info_last_updated (list_sessions demo_world ! 1) <
        info_last_updated (list_sessions demo_world ! 0)"
    by (simp add: e)
  from inst [THEN conjunct1, rule_format, OF l] have "(0::nat) < 1" .
  moreover
  have "chat_sessions (demo_world\<lparr>clock_reads := 5\<rparr>) = chat_sessions demo_world"
    by simp
  from inst [THEN conjunct2, THEN conjunct2, THEN conjunct2, THEN conjunct2, THEN conjunct1,
      rule_format, OF this]
  have "list_sessions (demo_world\<lparr>clock_reads := 5\<rparr>) = list_sessions demo_world" .
  ultimately show ?thesis
    by (simp add: e)
qed

section \<open>Invariants of the session histories\<close>

lemma live_iff: "k \<in> fst ` set (chat_sessions w) \<longleftrightarrow> map_of (chat_sessions w) k \<noteq> None"
  by (simp add: map_of_eq_None_iff)

lemma keeps_refl: "map_of (chat_sessions w) k \<noteq> None \<Longrightarrow> keeps k w w"
  by (auto simp: keeps_def)

lemma keeps_trans: "keeps k w w1 \<Longrightarrow> keeps k w1 w2 \<Longrightarrow> keeps k w w2"
  by (auto simp: keeps_def split: option.splits intro: prefix_order.trans)

lemma keeps_same:
  "map_of (chat_sessions w') k = map_of (chat_sessions w) k \<Longrightarrow>
   map_of (chat_sessions w) k \<noteq> None \<Longrightarrow> keeps k w w'"
  by (auto simp: keeps_def)

lemma keeps_add_user_message:
  "map_of (chat_sessions w) k \<noteq> None \<Longrightarrow> keeps k w (add_user_message E req sid w)"
  by (auto simp: keeps_def lookup_add_user_message)

lemma keeps_commit_assistant:
  "map_of (chat_sessions w) k \<noteq> None \<Longrightarrow> keeps k w (commit_assistant E sid c w)"
  by (auto simp: keeps_def lookup_commit_assistant)

lemma keeps_now:
  "map_of (chat_sessions w) k \<noteq> None \<Longrightarrow> keeps k w (snd (now E w))"
  by (auto simp: keeps_def)

lemma keeps_create_session:
  "map_of (chat_sessions w) k \<noteq> None \<Longrightarrow> k \<noteq> uuid4 E (uuid_draws w) \<Longrightarrow>
     keeps k w (snd (create_session E m w))"
  by (auto simp: keeps_def lookup_create_session)

lemma keeps_live: "keeps k w w' \<Longrightarrow> map_of (chat_sessions w') k \<noteq> None"
  by (auto simp: keeps_def split: option.splits)

lemma keeps_resolve:
  assumes "map_of (chat_sessions w) k \<noteq> None" and "k \<noteq> uuid4 E (uuid_draws w)"
  shows "keeps k w (snd (resolve_session_id E req w))"
proof (cases rule: resolve_session_id_cases [of req E w])
  case (given sid)
  with assms(1) show ?thesis by (simp add: keeps_refl)
next
  case created
  with assms show ?thesis by (simp add: keeps_create_session)
qed

lemma keeps_chat_with_model:
  assumes live: "map_of (chat_sessions w) k \<noteq> None" and fresh: "k \<noteq> uuid4 E (uuid_draws w)"
  shows "keeps k w (fst (chat_with_model E req ollama w))"
proof -
  obtain sid w0 where r: "resolve_session_id E req w = (sid, w0)"
    by (cases "resolve_session_id E req w") auto
  from keeps_resolve [OF live fresh, of req] r have k0: "keeps k w w0"
    by simp
  then have live0: "map_of (chat_sessions w0) k \<noteq> None"
    by (rule keeps_live)
  have "keeps k w0 (fst (chat_with_model E req ollama w))"
  proof (cases "map_of (chat_sessions w0) sid")
    case None
    with live0 show ?thesis
      by (simp add: chat_with_model_not_found [OF r None] keeps_refl)
  next
    case (Some s0)
    show ?thesis
    proof (cases "model s0 = req_model req")
      case False
      with live0 show ?thesis
        by (simp add: chat_with_model_mismatch [OF r Some False] keeps_refl)
    next
      case True
      let ?w1 = "add_user_message E req sid w0"
      have k1: "keeps k w0 ?w1"
        using live0 by (rule keeps_add_user_message)
      then have live1: "map_of (chat_sessions ?w1) k \<noteq> None"
        by (rule keeps_live)
      have "keeps k ?w1 (snd (now E (commit_assistant E sid c ?w1)))" for c
      proof -
        have "keeps k ?w1 (commit_assistant E sid c ?w1)"
          using live1 by (rule keeps_commit_assistant)
        moreover from this have "keeps k (commit_assistant E sid c ?w1)
            (snd (now E (commit_assistant E sid c ?w1)))"
          by (intro keeps_now keeps_live)
        ultimately show ?thesis by (rule keeps_trans)
      qed
      with k1 live1 have "keeps k w0 (snd (now E (commit_assistant E sid c ?w1)))" for c
        by (blast intro: keeps_trans)
      with k1 show ?thesis
        by (simp add: chat_with_model_found [OF r Some True] split: sum.split)
    qed
  qed
  with k0 show ?thesis by (rule keeps_trans)
qed

lemma keeps_stream_turn:
  assumes live: "map_of (chat_sessions w) k \<noteq> None" and fresh: "k \<noteq> uuid4 E (uuid_draws w)"
  shows "keeps k w (fst (stream_turn E req backend w))"
proof -
  obtain sid w0 where r: "resolve_session_id E req w = (sid, w0)"
    by (cases "resolve_session_id E req w") auto
  from keeps_resolve [OF live fresh, of req] r have k0: "keeps k w w0"
    by simp
  then have live0: "map_of (chat_sessions w0) k \<noteq> None"
    by (rule keeps_live)
  have "keeps k w0 (fst (stream_turn E req backend w))"
  proof (cases "map_of (chat_sessions w0) sid")
    case None
    with live0 show ?thesis
      by (simp add: stream_turn_not_found [OF r None] keeps_refl)
  next
    case (Some s0)
    let ?w1 = "add_user_message E req sid w0"
    let ?sc = "\<lparr>sc_session_id = sid,
                sc_payload = \<lparr>pl_model = req_model req,
                               pl_messages = prepare_messages req sid ?w1,
                               pl_stream = True\<rparr>\<rparr>"
    have k1: "keeps k w0 ?w1"
      using live0 by (rule keeps_add_user_message)
    then have live1: "map_of (chat_sessions ?w1) k \<noteq> None"
      by (rule keeps_live)
    have "keeps k ?w1 (fst (generate E ?sc backend ?w1))"
      using generate_world [of E ?sc backend ?w1] live1
      by (auto simp: keeps_refl keeps_commit_assistant)
    with k1 have "keeps k w0 (fst (generate E ?sc backend ?w1))"
      by (rule keeps_trans)
    then show ?thesis
      by (simp add: stream_turn_found [OF r Some] split_beta)
  qed
  with k0 show ?thesis by (rule keeps_trans)
qed

lemma create_new_session_world:
  "fst (create_new_session E m tags w) = w \<or>
   fst (create_new_session E m tags w) = snd (create_session E m w)"
  by (auto simp: create_new_session_def split_beta Let_def
      split: httpx_outcome.splits option.splits sum.splits)

lemma delete_session_lookup:
  "map_of (chat_sessions (fst (delete_session sid w))) k =
     (if k = sid then None else map_of (chat_sessions w) k)"
  by (auto simp: delete_session_def delete_conv' split: option.splits)

lemma serve_keeps:
  assumes "uuid4 E (uuid_draws w) \<notin> fst ` set (chat_sessions w)"
    and "k \<in> fst ` set (chat_sessions w)"
    and "k \<in> fst ` set (chat_sessions (serve E w r))"
  shows "keeps k w (serve E w r)"
proof -
  from assms(2) have live: "map_of (chat_sessions w) k \<noteq> None"
    by (simp add: live_iff)
  from assms(1,2) have fresh: "k \<noteq> uuid4 E (uuid_draws w)"
    by blast
  show ?thesis
  proof (cases r)
    case (Chat req ollama)
    with live fresh show ?thesis by (simp add: keeps_chat_with_model)
  next
    case (ChatStream req backend)
    with live fresh show ?thesis by (simp add: keeps_stream_turn)
  next
    case ListSessions
    with live show ?thesis by (simp add: keeps_refl)
  next
    case (GetSession sid)
    with live show ?thesis by (simp add: keeps_refl)
  next
    case (DeleteSession sid)
    with assms(3) have "map_of (chat_sessions (fst (delete_session sid w))) k \<noteq> None"
      by (simp add: live_iff)
    then have "map_of (chat_sessions (fst (delete_session sid w))) k = map_of (chat_sessions w) k"
      by (simp add: delete_session_lookup split: if_splits)
    with live DeleteSession show ?thesis by (simp add: keeps_same)
  next
    case (CreateNewSession m tags)
    with live fresh create_new_session_world [of E m tags w] show ?thesis
      by (auto simp: keeps_refl keeps_create_session)
  qed
qed

lemma serve_all_keeps:
  "fresh_ids E w rs \<Longrightarrow> alive k E w rs \<Longrightarrow> keeps k w (serve_all E w rs)"
proof (induction rs arbitrary: w)
  case Nil
  then show ?case by (simp add: keeps_refl live_iff)
next
  case (Cons r rs)
  from Cons.prems have fresh: "uuid4 E (uuid_draws w) \<notin> fst ` set (chat_sessions w)"
    and rest: "fresh_ids E (serve E w r) rs" "alive k E (serve E w r) rs"
    and live: "k \<in> fst ` set (chat_sessions w)"
    by simp_all
  from rest(2) have "k \<in> fst ` set (chat_sessions (serve E w r))"
    by (cases rs) simp_all
  with fresh live have "keeps k w (serve E w r)"
    by (rule serve_keeps)
  moreover from rest have "keeps k (serve E w r) (serve_all E (serve E w r) rs)"
    by (rule Cons.IH)
  ultimately show ?case
    by (simp add: keeps_trans)
qed

lemma paired_iff:
  "paired w \<longleftrightarrow> (\<forall>k s. map_of (chat_sessions w) k = Some s \<longrightarrow> well_paired (messages s))"
proof
  assume p: "paired w"
  show "\<forall>k s. map_of (chat_sessions w) k = Some s \<longrightarrow> well_paired (messages s)"
  proof (intro allI impI)
    fix k s
    assume s: "map_of (chat_sessions w) k = Some s"
    then have "k \<in> fst ` set (chat_sessions w)"
      by (simp add: live_iff)
    with p s show "well_paired (messages s)"
      by (auto simp: paired_def)
  qed
next
  assume "\<forall>k s. map_of (chat_sessions w) k = Some s \<longrightarrow> well_paired (messages s)"
  then show "paired w"
    by (auto simp: paired_def split: option.splits)
qed

lemma well_paired_Nil [simp]: "well_paired []"
  by (simp add: well_paired_def)

lemma well_paired_user:
  "well_paired ms \<Longrightarrow> role u = ''user'' \<Longrightarrow> well_paired (ms @ [u])"
  by (cases "rev ms") (simp_all add: well_paired_def)

lemma well_paired_turn:
  "well_paired ms \<Longrightarrow> role u = ''user'' \<Longrightarrow> role a = ''assistant'' \<Longrightarrow>
     well_paired (ms @ [u, a])"
  by (cases "rev ms") (simp_all add: well_paired_def)

lemma paired_now [simp]: "paired (snd (now E w)) = paired w"
  by (simp add: paired_iff)

lemma paired_create_session: "paired w \<Longrightarrow> paired (snd (create_session E m w))"
  by (simp add: paired_iff lookup_create_session)

lemma paired_resolve: "paired w \<Longrightarrow> paired (snd (resolve_session_id E req w))"
  by (cases rule: resolve_session_id_cases [of req E w]) (simp_all add: paired_create_session)

lemma paired_add_user_message: "paired w \<Longrightarrow> paired (add_user_message E req sid w)"
  by (auto simp: paired_iff lookup_add_user_message well_paired_user split: if_splits)

lemma paired_commit_after_user:
  "paired w \<Longrightarrow> paired (commit_assistant E sid c (add_user_message E req sid w))"
  by (auto simp: paired_iff lookup_add_user_message lookup_commit_assistant well_paired_turn
      split: if_splits)

lemma paired_chat_with_model:
  assumes "paired w"
  shows "paired (fst (chat_with_model E req ollama w))"
proof -
  obtain sid w0 where r: "resolve_session_id E req w = (sid, w0)"
    by (cases "resolve_session_id E req w") auto
  from paired_resolve [OF assms, of E req] r have p0: "paired w0"
    by simp
  show ?thesis
  proof (cases "map_of (chat_sessions w0) sid")
    case None
    with p0 show ?thesis
      by (simp add: chat_with_model_not_found [OF r None])
  next
    case (Some s0)
    show ?thesis
    proof (cases "model s0 = req_model req")
      case False
      with p0 show ?thesis
        by (simp add: chat_with_model_mismatch [OF r Some False])
    next
      case True
      from p0 show ?thesis
        by (simp add: chat_with_model_found [OF r Some True] paired_add_user_message
            paired_commit_after_user split: sum.split)
    qed
  qed
qed

lemma paired_stream_turn:
  assumes "paired w"
  shows "paired (fst (stream_turn E req backend w))"
proof -
  obtain sid w0 where r: "resolve_session_id E req w = (sid, w0)"
    by (cases "resolve_session_id E req w") auto
  from paired_resolve [OF assms, of E req] r have p0: "paired w0"
    by simp
  show ?thesis
  proof (cases "map_of (chat_sessions w0) sid")
    case None
    with p0 show ?thesis
      by (simp add: stream_turn_not_found [OF r None])
  next
    case (Some s0)
    let ?w1 = "add_user_message E req sid w0"
    let ?sc = "\<lparr>sc_session_id = sid,
                sc_payload = \<lparr>pl_model = req_model req,
                               pl_messages = prepare_messages req sid ?w1,
                               pl_stream = True\<rparr>\<rparr>"
    from p0 generate_world [of E ?sc backend ?w1]
    have "paired (fst (generate E ?sc backend ?w1))"
      by (auto simp: paired_add_user_message paired_commit_after_user)
    then show ?thesis
      by (simp add: stream_turn_found [OF r Some] split_beta)
  qed
qed

lemma paired_delete_session: "paired w \<Longrightarrow> paired (fst (delete_session sid w))"
  by (simp add: paired_iff delete_session_lookup)

lemma paired_create_new_session: "paired w \<Longrightarrow> paired (fst (create_new_session E m tags w))"
  using create_new_session_world [of E m tags w] by (auto simp: paired_create_session)

lemma serve_paired: "paired w \<Longrightarrow> paired (serve E w r)"
  by (cases r)
    (simp_all add: paired_chat_with_model paired_stream_turn paired_delete_session
      paired_create_new_session)

lemma serve_all_paired: "paired w \<Longrightarrow> paired (serve_all E w rs)"
  by (induction rs arbitrary: w) (simp_all add: serve_paired)

lemma paired_empty: "chat_sessions w = [] \<Longrightarrow> paired w"
  by (simp add: paired_def)

text \<open>
  C9. Along every sequence of requests (blocking turns, streaming turns, listing,
  reading, deleting, creating): a session that is live before and after every request
  of the sequence keeps its model, and its history at the end starts with its history at
  the beginning, so the length never decreases; this is under the assumption that
  \<^verbatim>\<open>uuid4\<close> never returns the identifier of a live session. And in every history every
  assistant message stands directly after a user message, at the end of a sequence that
  starts in a state where this holds, in particular in a state without sessions.
\<close>

theorem session_history_invariants:
  "(fresh_ids E w rs \<and> alive k E w rs \<longrightarrow> keeps k w (serve_all E w rs)) \<and>
   (paired w \<longrightarrow> paired (serve_all E w rs)) \<and>
   (chat_sessions w = [] \<longrightarrow> paired (serve_all E w rs))"
  by (simp add: serve_all_keeps serve_all_paired paired_empty)


theorem session_history_invariants_witness:
  "keeps ''s1'' demo_world
     (serve_all demo_env demo_world
        [Chat (demo_request (Some ''s1'') ''m1'') demo_ollama,
         ChatStream (demo_request None ''m1'') demo_stream,
         DeleteSession ''s2'', ListSessions]) \<and>
   paired
     (serve_all demo_env demo_world
        [Chat (demo_request (Some ''s1'') ''m1'') demo_ollama,
         ChatStream (demo_request None ''m1'') demo_stream,
         DeleteSession ''s2'', ListSessions]) \<and>
   paired
     (serve_all demo_env empty_world
        [Chat (demo_request (Some ''s1'') ''m1'') demo_ollama,
         ChatStream (demo_request None ''m1'') demo_stream,
         DeleteSession ''s2'', ListSessions])"
proof -
  let ?rs = "[Chat (demo_request (Some ''s1'') ''m1'') demo_ollama,
         ChatStream (demo_request None ''m1'') demo_stream,
         DeleteSession ''s2'', ListSessions]"
  let ?w1 = "\<lparr>chat_sessions =
     [(''s1'', \<lparr>model = ''m1'',
          messages = [\<lparr>role = ''user'', content = JStr ''hi'', timestamp = 100\<rparr>,
                      \<lparr>role = ''assistant'', content = JStr ''hello'', timestamp = 101\<rparr>],
          created_at = 1, last_updated = 102\<rparr>),
      (''s2'', \<lparr>model = ''m1'', messages = [], created_at = 3, last_updated = 7\<rparr>)],
     clock_reads = 4, uuid_draws = 0\<rparr>"
  let ?w2 = "\<lparr>chat_sessions =
     [(''s1'', \<lparr>model = ''m1'',
          messages = [\<lparr>role = ''user'', content = JStr ''hi'', timestamp = 100\<rparr>,
                      \<lparr>role = ''assistant'', content = JStr ''hello'', timestamp = 101\<rparr>],
          created_at = 1, last_updated = 102\<rparr>),
      (''s2'', \<lparr>model = ''m1'', messages = [], created_at = 3, last_updated = 7\<rparr>),
      (''u'', \<lparr>model = ''m1'',
          messages = [\<lparr>role = ''user'', content = JStr ''hi'', timestamp = 106\<rparr>,
                      \<lparr>role = ''assistant'', content = JStr ''hello'', timestamp = 107\<rparr>],
          created_at = 104, last_updated = 108\<rparr>)],
     clock_reads = 9, uuid_draws = 1\<rparr>"
  let ?w3 = "\<lparr>chat_sessions =
     [(''s1'', \<lparr>model = ''m1'',
          messages = [\<lparr>role = ''user'', content = JStr ''hi'', timestamp = 100\<rparr>,
                      \<lparr>role = ''assistant'', content = JStr ''hello'', timestamp = 101\<rparr>],
          created_at = 1, last_updated = 102\<rparr>),
      (''u'', \<lparr>model = ''m1'',
          messages = [\<lparr>role = ''user'', content = JStr ''hi'', timestamp = 106\<rparr>,
                      \<lparr>role = ''assistant'', content = JStr ''hello'', timestamp = 107\<rparr>],
          created_at = 104, last_updated = 108\<rparr>)],
     clock_reads = 9, uuid_draws = 1\<rparr>"
  have 1: "serve demo_env demo_world (Chat (demo_request (Some ''s1'') ''m1'') demo_ollama) = ?w1"
    by (simp add: endpoint_defs demo_defs)
  have 2: "serve demo_env ?w1 (ChatStream (demo_request None ''m1'') demo_stream) = ?w2"
    by (simp add: endpoint_defs demo_defs Let_def)
  have 3: "serve demo_env ?w2 (DeleteSession ''s2'') = ?w3"
    by (simp add: endpoint_defs AList.delete_eq)
  have u: "uuid4 demo_env 0 = ''u''" "uuid4 demo_env (Suc 0) = ''uu''"
    by (simp_all add: demo_env_def)
  have fresh: "fresh_ids demo_env demo_world ?rs"
    by (simp only: fresh_ids.simps 1 2 3) (simp add: demo_world_def u)
  have live: "alive ''s1'' demo_env demo_world ?rs"
    by (simp only: alive.simps 1 2 3 serve.simps(3)) (simp add: demo_world_def)
  have p: "paired demo_world"
    by (simp add: paired_def demo_world_def)
  have e: "chat_sessions empty_world = []"
    by (simp add: empty_world_def)
  note inst = session_history_invariants [of demo_env _ ?rs]
  from inst [of demo_world "''s1''"] fresh live
  have a: "keeps ''s1'' demo_world (serve_all demo_env demo_world ?rs)"
    by blast
  from inst [of demo_world "''s1''"] p
  have b: "paired (serve_all demo_env demo_world ?rs)"
    by blast
  from inst [of empty_world "''s1''"] e
  have c: "paired (serve_all demo_env empty_world ?rs)"
    by blast
  from a b c show ?thesis by blast
qed

section \<open>Statuses of the failures\<close>

lemma get_session_unknown:
  "map_of (chat_sessions w) sid = None \<Longrightarrow>
     get_session sid w = Inl (HTTPException 404 (Detail ''Session not found''))"
  by (simp add: get_session_def)

lemma delete_session_unknown:
  "map_of (chat_sessions w) sid = None \<Longrightarrow>
     delete_session sid w = (w, Inl (HTTPException 404 (Detail ''Session not found'')))"
  by (simp add: delete_session_def)

lemma get_session_after_delete:
  "get_session sid (fst (delete_session sid w)) =
     Inl (HTTPException 404 (Detail ''Session not found''))"
  by (simp add: get_session_def delete_session_lookup)

lemma chat_with_model_backend_failure:
  assumes "resolve_session_id E req w = (sid, w0)"
    and "map_of (chat_sessions w0) sid = Some s0"
    and "model s0 = req_model req"
  shows "(\<forall>p. ollama p = RaisesRequestError) \<Longrightarrow>
           snd (chat_with_model E req ollama w) =
             Inl (HTTPException 503 (Detail ''Ollama server is not available''))"
    and "(\<forall>p. ollama p = RaisesHTTPStatusError code body) \<Longrightarrow>
           snd (chat_with_model E req ollama w) = Inl (HTTPException code (OllamaError body))"
  by (simp_all add: chat_with_model_found [OF assms] assistant_content_def)

lemma create_new_session_failures:
  "snd (create_new_session E m RaisesRequestError w) =
     Inl (HTTPException 503 (Detail ''Ollama server is not available''))"
  "json_loads E body = Some (JObj [(''models'', JArr ms)]) \<Longrightarrow> model_names ms = Inr names \<Longrightarrow>
   JStr m \<notin> set names \<Longrightarrow>
     create_new_session E m (Returns body) w = (w, Inl (HTTPException 400 (ModelNotAvailable m)))"
  by (simp_all add: create_new_session_def)

text \<open>
  C1, at a streaming request for session \<open>s1\<close>, bound to model \<open>m1\<close>, that names model
  \<open>m2\<close>: the streaming endpoint does not compare the models; the user message and, as the
  stream completes, the assistant message are appended and \<^verbatim>\<open>last_updated\<close> is set. The
  blocking endpoint compares them and leaves the session as it was; the exception that
  leaves it has status 500 and wraps the status 400 raised for the mismatch.
\<close>

theorem stream_accepts_other_model:
  "stream_turn demo_env (demo_request (Some ''s1'') ''m2'') demo_stream demo_world =
     (\<lparr>chat_sessions =
         [(''s1'',
           \<lparr>model = ''m1'',
            messages =
              [\<lparr>role = ''user'', content = JStr ''hi'', timestamp = 100\<rparr>,
               \<lparr>role = ''assistant'', content = JStr ''hello'', timestamp = 101\<rparr>],
            created_at = 1, last_updated = 102\<rparr>),
          (''s2'', \<lparr>model = ''m1'', messages = [], created_at = 3, last_updated = 7\<rparr>)],
       clock_reads = 3, uuid_draws = 0\<rparr>,
      Inr ([ContentChunk ''he'' ''s1'', ContentChunk ''llo'' ''s1'', DoneChunk ''s1''],
           Completed)) \<and>
   chat_with_model demo_env (demo_request (Some ''s1'') ''m2'') demo_ollama demo_world =
     (demo_world,
      Inl (HTTPException 500
             (ChatError (HTTPException 400 (Detail ''Model mismatch with session'')))))"
  by (simp add: endpoint_defs demo_defs)

text \<open>
  C3, at a blocking chat request that names the unknown session id \<open>nope\<close>: the
  \<^verbatim>\<open>HTTPException\<close> with status 404 is raised inside the \<^verbatim>\<open>try\<close> block, the clause
  \<^verbatim>\<open>except Exception\<close> catches it, and the exception that leaves the endpoint has status
  500. Reading the same unknown session fails with status 404.
\<close>

theorem chat_unknown_session_status:
  "chat_with_model demo_env (demo_request (Some ''nope'') ''m1'') demo_ollama demo_world =
     (demo_world,
      Inl (HTTPException 500 (ChatError (HTTPException 404 (Detail ''Session not found''))))) \<and>
   chat_stream demo_env (demo_request (Some ''nope'') ''m1'') demo_world =
     (demo_world,
      Inl (HTTPException 500
             (StreamingError (HTTPException 404 (Detail ''Session not found''))))) \<and>
   get_session ''nope'' demo_world = Inl (HTTPException 404 (Detail ''Session not found''))"
  by (simp add: endpoint_defs demo_defs)

end
